theory Spec2Isabelle
  imports Main "HOL-Library.Char_ord" "HOL-Library.List_Lexorder"
begin

section \<open>Text and PowerShell values\<close>

text \<open>
  The program is \<^verbatim>\<open>scripts/UiPath-XAML-Lint.ps1\<close>. Document text is a \<^typ>\<open>string\<close>.
  PowerShell compares strings without regard to case wherever the script uses
  \<^verbatim>\<open>-eq\<close>, \<^verbatim>\<open>-ne\<close>, \<^verbatim>\<open>-contains\<close>, \<^verbatim>\<open>-match\<close> or a hashtable key; the model folds
  the ASCII letters, which is what these comparisons do on ASCII text.
\<close>

definition upper_lower :: "(char \<times> char) list" where
  "upper_lower = zip ''ABCDEFGHIJKLMNOPQRSTUVWXYZ'' ''abcdefghijklmnopqrstuvwxyz''"

definition to_lower :: "char \<Rightarrow> char" where
  "to_lower c =
     (if CHR ''A'' \<le> c \<and> c \<le> CHR ''Z''
      then (case map_of upper_lower c of Some d \<Rightarrow> d | None \<Rightarrow> c) else c)"

definition to_upper :: "char \<Rightarrow> char" where
  "to_upper c =
     (if CHR ''a'' \<le> c \<and> c \<le> CHR ''z''
      then (case map_of (map (\<lambda>(u, l). (l, u)) upper_lower) c of Some d \<Rightarrow> d | None \<Rightarrow> c)
      else c)"

text \<open>\<^verbatim>\<open>$a -eq $b\<close> on two strings.\<close>

definition ci_eq :: "string \<Rightarrow> string \<Rightarrow> bool" where
  "ci_eq a b = (map to_lower a = map to_lower b)"

text \<open>\<^verbatim>\<open>$xs -join $sep\<close>.\<close>

fun join :: "string \<Rightarrow> string list \<Rightarrow> string" where
  "join sep [] = []"
| "join sep [x] = x"
| "join sep (x # y # ys) = x @ sep @ join sep (y # ys)"

text \<open>A number inside a double-quoted string: its decimal digits.\<close>

definition digit_char :: "nat \<Rightarrow> char" where
  "digit_char d = ''0123456789'' ! d"

fun string_of_nat :: "nat \<Rightarrow> string" where
  "string_of_nat n =
     (if n < 10 then [digit_char n] else string_of_nat (n div 10) @ [digit_char (n mod 10)])"

text \<open>
  What a pipeline leaves in a variable: nothing (\<^verbatim>\<open>$null\<close>) when it emitted no object,
  the object itself when it emitted one, an array when it emitted more.
\<close>

datatype 'a psval = PSNull | PSScalar 'a | PSArray "'a list"

definition collect :: "'a list \<Rightarrow> 'a psval" where
  "collect xs = (case xs of [] \<Rightarrow> PSNull | [x] \<Rightarrow> PSScalar x | _ \<Rightarrow> PSArray xs)"

text \<open>\<^verbatim>\<open>foreach ($x in $v)\<close>, and \<^verbatim>\<open>$v | ...\<close>: no item for \<^verbatim>\<open>$null\<close>, one for a scalar.\<close>

definition items :: "'a psval \<Rightarrow> 'a list" where
  "items v = (case v of PSNull \<Rightarrow> [] | PSScalar x \<Rightarrow> [x] | PSArray xs \<Rightarrow> xs)"

text \<open>
  \<^verbatim>\<open>$v.Count\<close>: 0 for \<^verbatim>\<open>$null\<close>, 1 for a string or an object of one of the script's
  classes (neither has a Count member of its own), the length for an array.
\<close>

definition Count :: "'a psval \<Rightarrow> nat" where
  "Count v = (case v of PSNull \<Rightarrow> 0 | PSScalar x \<Rightarrow> 1 | PSArray xs \<Rightarrow> length xs)"

text \<open>
  \<^verbatim>\<open>$v += $w\<close> where both hold strings. The left operand decides: \<^verbatim>\<open>$null\<close> takes the
  right value, a string is concatenated with the right value's string form (an array's
  elements joined by a blank), an array is extended by the items of the right value.
  (Where the right pipeline emitted nothing, PowerShell may append a null element to
  the array; the one loop that runs over such an array records nothing for a null
  item, and the model leaves the element out.)
\<close>

definition ps_add :: "string psval \<Rightarrow> string psval \<Rightarrow> string psval" where
  "ps_add v w =
     (case v of
        PSNull \<Rightarrow> w
      | PSScalar s \<Rightarrow>
          (case w of
             PSNull \<Rightarrow> PSScalar s
           | PSScalar t \<Rightarrow> PSScalar (s @ t)
           | PSArray ts \<Rightarrow> PSScalar (s @ join '' '' ts))
      | PSArray xs \<Rightarrow> PSArray (xs @ items w))"

text \<open>
  \<^verbatim>\<open>$v -contains $x\<close>: some item \<^verbatim>\<open>$y\<close> of \<^verbatim>\<open>$v\<close> has \<^verbatim>\<open>$y -eq $x\<close>. How PowerShell compares
  two strings with \<^verbatim>\<open>-eq\<close> (it ignores letter case, of every letter of its character
  set and by the rules of its culture) is not written in the script: the comparison is
  the parameter \<open>eq\<close>, the item on the left.
\<close>

definition ps_contains :: "(string \<Rightarrow> string \<Rightarrow> bool) \<Rightarrow> string psval \<Rightarrow> string \<Rightarrow> bool" where
  "ps_contains eq v x = list_ex (\<lambda>y. eq y x) (items v)"

text \<open>\<^verbatim>\<open>Select-Object -Unique\<close>: the first of each group of equal strings, case observed.\<close>

fun select_unique :: "string list \<Rightarrow> string list \<Rightarrow> string list" where
  "select_unique seen [] = []"
| "select_unique seen (x # xs) =
     (if x \<in> set seen then select_unique seen xs else x # select_unique (x # seen) xs)"

definition Select_Object_Unique :: "string list \<Rightarrow> string list" where
  "Select_Object_Unique xs = select_unique [] xs"

text \<open>
  A PowerShell hashtable: its keys are compared without regard to case, and storing
  under a key that is present replaces the value and keeps the key as first written.
  The model lists the entries in the order their keys were first stored.
\<close>

type_synonym 'v hashtable = "(string \<times> 'v) list"

definition ContainsKey :: "'v hashtable \<Rightarrow> string \<Rightarrow> bool" where
  "ContainsKey h k = list_ex (\<lambda>(k', v). ci_eq k' k) h"

fun ht_set :: "'v hashtable \<Rightarrow> string \<Rightarrow> 'v \<Rightarrow> 'v hashtable" where
  "ht_set [] k v = [(k, v)]"
| "ht_set ((k', v') # h) k v =
     (if ci_eq k' k then (k', v) # h else (k', v') # ht_set h k v)"

fun ht_get :: "'v hashtable \<Rightarrow> string \<Rightarrow> 'v option" where
  "ht_get [] k = None"
| "ht_get ((k', v') # h) k = (if ci_eq k' k then Some v' else ht_get h k)"

definition Keys :: "'v hashtable \<Rightarrow> string list" where
  "Keys h = map fst h"

section \<open>Regular expressions\<close>

text \<open>
  The patterns of the script are terms of \<open>regex\<close>; each definition below quotes the
  pattern it stands for. A character class is a list of ranges. The matcher is a
  backtracking one: it returns every way to match from a position, the preferred way
  first (left alternative first, a star as long as it can), so the head of the list is
  the match the platform reports and the list is empty exactly when there is none.
\<close>

type_synonym cclass = "(char \<times> char) list"

datatype regex =
    Chr char
  | OneOf cclass
  | NoneOf cclass
  | Dot
  | Eps
  | Seq regex regex
  | Alt regex regex
  | Star regex
  | Grp nat regex
  | NotAhead regex
  | NotBehind cclass

definition in_ranges :: "cclass \<Rightarrow> char \<Rightarrow> bool" where
  "in_ranges cls x = list_ex (\<lambda>(lo, hi). lo \<le> x \<and> x \<le> hi) cls"

definition in_class :: "bool \<Rightarrow> cclass \<Rightarrow> char \<Rightarrow> bool" where
  "in_class ic cls x =
     (if in_ranges cls x then True
      else if ic then (if in_ranges cls (to_lower x) then True else in_ranges cls (to_upper x))
      else False)"

text \<open>
  A matcher state: the character just before the position (for the look-behind), the
  text from the position on, and the groups captured so far, the latest first.
\<close>

type_synonym mstate = "char option \<times> string \<times> (nat \<times> string) list"

definition remaining :: "mstate \<Rightarrow> nat" where
  "remaining st = (case st of (prev, rest, caps) \<Rightarrow> length rest)"

definition step :: "(char \<Rightarrow> bool) \<Rightarrow> mstate \<Rightarrow> mstate list" where
  "step P st =
     (case st of (prev, rest, caps) \<Rightarrow>
        (case rest of [] \<Rightarrow> [] | x # xs \<Rightarrow> if P x then [(Some x, xs, caps)] else []))"

text \<open>
  A greedy star: one more round first, the rounds that consumed nothing dropped, then
  stopping here. The count bounds the rounds by the characters left.
\<close>

primrec star :: "(mstate \<Rightarrow> mstate list) \<Rightarrow> nat \<Rightarrow> mstate \<Rightarrow> mstate list" where
  "star f 0 st = [st]"
| "star f (Suc n) st =
     concat (map (\<lambda>st'. if remaining st' < remaining st then star f n st' else []) (f st))
     @ [st]"

definition capture :: "nat \<Rightarrow> mstate \<Rightarrow> mstate \<Rightarrow> mstate" where
  "capture n st st' =
     (case st of (prev, rest, caps) \<Rightarrow>
        (case st' of (prev', rest', caps') \<Rightarrow>
           (prev', rest', (n, take (length rest - length rest') rest) # caps')))"

primrec rmatch :: "bool \<Rightarrow> regex \<Rightarrow> mstate \<Rightarrow> mstate list" where
  "rmatch ic (Chr c) st = step (\<lambda>x. if ic then to_lower x = to_lower c else x = c) st"
| "rmatch ic (OneOf cls) st = step (in_class ic cls) st"
| "rmatch ic (NoneOf cls) st = step (\<lambda>x. \<not> in_class ic cls x) st"
| "rmatch ic Dot st = step (\<lambda>x. x \<noteq> CHR 0x0A) st"
| "rmatch ic Eps st = [st]"
| "rmatch ic (Seq a b) st = concat (map (rmatch ic b) (rmatch ic a st))"
| "rmatch ic (Alt a b) st = rmatch ic a st @ rmatch ic b st"
| "rmatch ic (Star a) st = star (rmatch ic a) (remaining st) st"
| "rmatch ic (Grp n a) st = map (capture n st) (rmatch ic a st)"
| "rmatch ic (NotAhead a) st = (if rmatch ic a st = [] then [st] else [])"
| "rmatch ic (NotBehind cls) st =
     (case st of (prev, rest, caps) \<Rightarrow>
        (case prev of None \<Rightarrow> [st] | Some p \<Rightarrow> if in_class ic cls p then [] else [st]))"

text \<open>Pattern syntax that is a combination of the above.\<close>

definition lit :: "string \<Rightarrow> regex" where
  "lit s = foldr (\<lambda>c r. Seq (Chr c) r) s Eps"

definition seqs :: "regex list \<Rightarrow> regex" where
  "seqs rs = foldr Seq rs Eps"

definition alts :: "regex list \<Rightarrow> regex" where
  "alts rs = foldr Alt (butlast rs) (last rs)"

definition Plus :: "regex \<Rightarrow> regex" where
  "Plus r = Seq r (Star r)"

definition Opt :: "regex \<Rightarrow> regex" where
  "Opt r = Alt r Eps"

definition AtLeast :: "nat \<Rightarrow> regex \<Rightarrow> regex" where
  "AtLeast n r = foldr Seq (replicate n r) (Star r)"

definition one :: "char \<Rightarrow> cclass" where
  "one c = [(c, c)]"

definition dquote :: char where
  "dquote = CHR 0x22"

definition squote :: char where
  "squote = CHR 0x27"

text \<open>
  \<^verbatim>\<open>[a-zA-Z]\<close>, \<^verbatim>\<open>[a-zA-Z0-9_]\<close> and \<^verbatim>\<open>\s\<close>: tab to carriage return, the blank, next line
  and the no-break space.
\<close>

definition letter :: cclass where
  "letter = [(CHR ''a'', CHR ''z''), (CHR ''A'', CHR ''Z'')]"

definition word_char :: cclass where
  "word_char = [(CHR ''a'', CHR ''z''), (CHR ''A'', CHR ''Z''), (CHR ''0'', CHR ''9''),
     (CHR ''_'', CHR ''_'')]"

definition space :: cclass where
  "space = [(CHR 0x09, CHR 0x0D), (CHR '' '', CHR '' ''), (CHR 0x85, CHR 0x85),
     (CHR 0xA0, CHR 0xA0)]"

text \<open>
  \<^verbatim>\<open>$text -match $pattern\<close>: is there a match anywhere in the text, letter case
  ignored. \<^verbatim>\<open>-notmatch\<close> is its negation.
\<close>

primrec match_from :: "regex \<Rightarrow> char option \<Rightarrow> string \<Rightarrow> bool" where
  "match_from r prev [] = (rmatch True r (prev, [], []) \<noteq> [])"
| "match_from r prev (c # cs) =
     (if rmatch True r (prev, c # cs, []) \<noteq> [] then True else match_from r (Some c) cs)"

definition is_match :: "string \<Rightarrow> regex \<Rightarrow> bool" where
  "is_match s r = match_from r None s"

text \<open>
  \<^verbatim>\<open>[regex]::Matches($text, $pattern)\<close>: the matches from left to right, letter case
  observed, each search starting where the previous match ended (one character further
  after an empty match). \<open>Index\<close> is where a match starts, \<open>group_value n\<close> is
  \<^verbatim>\<open>$m.Groups[n].Value\<close>.
\<close>

record Match =
  Index :: nat
  Value :: string
  Groups :: "(nat \<times> string) list"

definition group_value :: "nat \<Rightarrow> Match \<Rightarrow> string" where
  "group_value n m = (case map_of (Groups m) n of Some s \<Rightarrow> s | None \<Rightarrow> [])"

function scan :: "regex \<Rightarrow> nat \<Rightarrow> char option \<Rightarrow> string \<Rightarrow> Match list" where
  "scan r i prev s =
     (case rmatch False r (prev, s, []) of
        [] \<Rightarrow> (case s of [] \<Rightarrow> [] | c # cs \<Rightarrow> scan r (Suc i) (Some c) cs)
      | st # sts \<Rightarrow>
          (let n = length s - remaining st in
           \<lparr>Index = i, Value = take n s, Groups = snd (snd st)\<rparr> #
           (if n = 0 then (case s of [] \<Rightarrow> [] | c # cs \<Rightarrow> scan r (Suc i) (Some c) cs)
            else scan r (i + n) (fst st) (drop n s))))"
  by pat_completeness auto
termination
  by (relation "measure (\<lambda>(r, i, prev, s). length s)") auto

definition Matches :: "string \<Rightarrow> regex \<Rightarrow> Match list" where
  "Matches s r = scan r 0 None s"

section \<open>The data model\<close>

datatype severity = ERROR | WARNING | INFO

datatype status = PASS | FAIL | WARN | NA

text \<open>
  \<^verbatim>\<open>class ValidationIssue\<close>. The script sets \<open>Rule\<close>, \<open>Severity\<close> and \<open>Message\<close> of every
  issue it creates and leaves \<open>Line\<close> and \<open>Element\<close> as the constructor made them.
\<close>

record ValidationIssue =
  Rule :: string
  Severity :: severity
  Message :: string
  Line :: int
  Element :: "string option"

definition new_issue :: "string \<Rightarrow> severity \<Rightarrow> string \<Rightarrow> ValidationIssue" where
  "new_issue rule sev msg =
     \<lparr>Rule = rule, Severity = sev, Message = msg, Line = 0, Element = None\<rparr>"

text \<open>The hashtable \<^verbatim>\<open>$context\<close> of \<^verbatim>\<open>Get-ProjectContext\<close>: its four keys.\<close>

record project_context =
  language :: string
  compatibility :: string
  dependencies :: "(string \<times> string) psval"
  projectPath :: "string option"

text \<open>\<^verbatim>\<open>class ValidationResult\<close>, and the object its constructor returns.\<close>

record ValidationResult =
  FilePath :: string
  IsValid :: bool
  Issues :: "ValidationIssue list"
  HRCompliance :: "status hashtable"
  ProjectContext :: "project_context option"

definition new_result :: ValidationResult where
  "new_result =
     \<lparr>FilePath = [], IsValid = False, Issues = [], HRCompliance = [], ProjectContext = None\<rparr>"

text \<open>\<^verbatim>\<open>$Result.Issues.Add($issue)\<close> and \<^verbatim>\<open>$Result.HRCompliance[$rule] = $status\<close>.\<close>

definition add_issue :: "ValidationIssue \<Rightarrow> ValidationResult \<Rightarrow> ValidationResult" where
  "add_issue i r = r\<lparr>Issues := Issues r @ [i]\<rparr>"

definition set_compliance :: "string \<Rightarrow> status \<Rightarrow> ValidationResult \<Rightarrow> ValidationResult" where
  "set_compliance rule s r = r\<lparr>HRCompliance := ht_set (HRCompliance r) rule s\<rparr>"

text \<open>
  The display list of a rule's message: the items joined, and past the rule's
  threshold only the first ones, followed by three dots.
\<close>

definition display :: "nat \<Rightarrow> string \<Rightarrow> string list \<Rightarrow> string" where
  "display k sep xs = (if length xs > k then join sep (take k xs) @ ''...'' else join sep xs)"

section \<open>Well-formedness and namespaces\<close>

text \<open>
  \<^verbatim>\<open>Test-XmlWellFormed\<close>. The cast \<^verbatim>\<open>[xml]$Content\<close> is the platform's XML parser, a
  parameter here: \<open>xml_cast\<close> gives the exception's message when the cast throws and
  \<open>None\<close> when the text parses. The function returns its boolean and the result object
  it has written to.
\<close>

definition Test_XmlWellFormed ::
  "(string \<Rightarrow> string option) \<Rightarrow> string \<Rightarrow> ValidationResult \<Rightarrow> bool \<times> ValidationResult" where
  "Test_XmlWellFormed xml_cast Content Result =
     (case xml_cast Content of
        None \<Rightarrow> (True, set_compliance ''Layer1-XML'' PASS Result)
      | Some msg \<Rightarrow>
          (False,
           set_compliance ''Layer1-XML'' FAIL
             (add_issue (new_issue ''Layer1-XML'' ERROR (''XML parsing error: '' @ msg)) Result)))"

text \<open>\<^verbatim>\<open>xmlns:?([a-zA-Z0-9_]*)=["']([^"']+)["']\<close>\<close>

definition quotes :: cclass where
  "quotes = [(dquote, dquote), (squote, squote)]"

definition namespace_pattern :: regex where
  "namespace_pattern =
     seqs [lit ''xmlns'', Opt (Chr (CHR '':'')), Grp 1 (Star (OneOf word_char)), Chr (CHR ''=''),
           OneOf quotes, Grp 2 (Plus (NoneOf quotes)), OneOf quotes]"

definition Get_Namespaces :: "string \<Rightarrow> string hashtable" where
  "Get_Namespaces Content =
     foldl (\<lambda>namespaces m. ht_set namespaces (group_value 1 m) (group_value 2 m)) []
       (Matches Content namespace_pattern)"

text \<open>
  \<^verbatim>\<open>Test-NamespacePrefixUsage\<close>. The three patterns:
  \<^verbatim>\<open><([a-zA-Z0-9_]+):[a-zA-Z0-9_]\<close>, \<^verbatim>\<open>Type="([^"]+)"\<close> and \<^verbatim>\<open>x:TypeArguments="([^"]+)"\<close>,
  and \<^verbatim>\<open>([A-Za-z0-9_]+):\<close> for the prefixes inside an attribute value.
\<close>

definition element_prefix_pattern :: regex where
  "element_prefix_pattern =
     seqs [Chr (CHR ''<''), Grp 1 (Plus (OneOf word_char)), Chr (CHR '':''), OneOf word_char]"

definition type_attr_pattern :: regex where
  "type_attr_pattern =
     seqs [lit ''Type='', Chr dquote, Grp 1 (Plus (NoneOf (one dquote))), Chr dquote]"

definition type_args_pattern :: regex where
  "type_args_pattern =
     seqs [lit ''x:TypeArguments='', Chr dquote, Grp 1 (Plus (NoneOf (one dquote))), Chr dquote]"

definition inner_prefix_pattern :: regex where
  "inner_prefix_pattern = seqs [Grp 1 (Plus (OneOf word_char)), Chr (CHR '':'')]"

definition add_inner_prefixes :: "bool hashtable \<Rightarrow> Match \<Rightarrow> bool hashtable" where
  "add_inner_prefixes used m =
     foldl (\<lambda>h innerMatch. ht_set h (group_value 1 innerMatch) True) used
       (Matches (group_value 1 m) inner_prefix_pattern)"

definition usedPrefixes :: "string \<Rightarrow> bool hashtable" where
  "usedPrefixes Content =
     (let h1 = foldl (\<lambda>h m. if ci_eq (group_value 1 m) ''xml'' then h
                             else ht_set h (group_value 1 m) True) []
                 (Matches Content element_prefix_pattern);
          h2 = foldl add_inner_prefixes h1 (Matches Content type_attr_pattern)
      in foldl add_inner_prefixes h2 (Matches Content type_args_pattern))"

definition missingPrefixes :: "string \<Rightarrow> string hashtable \<Rightarrow> string list" where
  "missingPrefixes Content Namespaces =
     filter (\<lambda>prefix. \<not> ContainsKey Namespaces prefix) (Keys (usedPrefixes Content))"

text \<open>
  \<^verbatim>\<open>Sort-Object\<close> is the platform's; the rule takes it as a parameter.
\<close>

definition Test_NamespacePrefixUsage ::
  "(string list \<Rightarrow> string list) \<Rightarrow> string \<Rightarrow> string hashtable \<Rightarrow> ValidationResult
   \<Rightarrow> ValidationResult" where
  "Test_NamespacePrefixUsage Sort_Object Content Namespaces Result =
     (let missing = missingPrefixes Content Namespaces in
      if length missing > 0
      then set_compliance ''HR-Namespace-Usage'' FAIL
             (add_issue
                (new_issue ''HR-Namespace-Usage'' ERROR
                   (''Namespace prefix(es) used but not declared: ''
                    @ join '', '' (Sort_Object missing)))
                Result)
      else set_compliance ''HR-Namespace-Usage'' PASS Result)"

section \<open>Arguments and variables, IdRefs, secrets\<close>

text \<open>
  \<^verbatim>\<open>Test-HR4-ArgumentsVariables\<close>. The patterns are \<^verbatim>\<open><x:Property\s+Name="([^"]+)"\<close> and
  \<^verbatim>\<open><Variable\s+[^>]*Name="([^"]+)"\<close>. \<^verbatim>\<open>$arguments\<close> and \<^verbatim>\<open>$variables\<close> hold what the
  pipelines emitted. The rule takes the string comparison of \<^verbatim>\<open>-contains\<close> as its first
  parameter.
\<close>

definition argPattern :: regex where
  "argPattern =
     seqs [lit ''<x:Property'', Plus (OneOf space), lit ''Name='', Chr dquote,
           Grp 1 (Plus (NoneOf (one dquote))), Chr dquote]"

definition varPattern :: regex where
  "varPattern =
     seqs [lit ''<Variable'', Plus (OneOf space), Star (NoneOf (one (CHR ''>''))), lit ''Name='',
           Chr dquote, Grp 1 (Plus (NoneOf (one dquote))), Chr dquote]"

definition StartsWith :: "string \<Rightarrow> string \<Rightarrow> bool" where
  "StartsWith s p = (take (length p) s = p)"

definition arguments :: "string \<Rightarrow> string psval" where
  "arguments Content = collect (map (group_value 1) (Matches Content argPattern))"

definition variables :: "string \<Rightarrow> string psval" where
  "variables Content = collect (map (group_value 1) (Matches Content varPattern))"

definition invalidArgs :: "string \<Rightarrow> string list" where
  "invalidArgs Content =
     filter (\<lambda>arg. \<not> (StartsWith arg ''in_'' \<or> StartsWith arg ''out_'' \<or> StartsWith arg ''io_''))
       (items (arguments Content))"

definition shadowed :: "(string \<Rightarrow> string \<Rightarrow> bool) \<Rightarrow> string \<Rightarrow> string list" where
  "shadowed eq Content =
     filter (\<lambda>var. ps_contains eq (arguments Content) var) (items (variables Content))"

definition Test_HR4_ArgumentsVariables ::
  "(string \<Rightarrow> string \<Rightarrow> bool) \<Rightarrow> string \<Rightarrow> ValidationResult \<Rightarrow> ValidationResult" where
  "Test_HR4_ArgumentsVariables eq Content Result =
     (let r1 = (if length (invalidArgs Content) > 0
                then add_issue
                       (new_issue ''HR-4'' WARNING
                          (''Arguments missing standard prefix (in_/out_/io_): ''
                           @ display 5 '', '' (invalidArgs Content)))
                       Result
                else Result)
      in if length (shadowed eq Content) > 0
         then set_compliance ''HR-4'' FAIL
                (add_issue
                   (new_issue ''HR-4'' ERROR
                      (''Variables shadow argument names: '' @ join '', '' (shadowed eq Content)))
                   r1)
         else set_compliance ''HR-4'' PASS r1)"

text \<open>
  \<^verbatim>\<open>Test-HR5-IdRefUniqueness\<close>. The patterns are
  \<^verbatim>\<open>sap2010:WorkflowViewState\.IdRef="([^"]+)"\<close> and \<^verbatim>\<open>sap:WorkflowViewState\.IdRef="([^"]+)"\<close>.
  \<^verbatim>\<open>$idrefs\<close> is assigned what the first pipeline emitted, and \<^verbatim>\<open>+=\<close> adds what the second
  emitted.
\<close>

definition idrefPattern :: regex where
  "idrefPattern =
     seqs [lit ''sap2010:WorkflowViewState.IdRef='', Chr dquote,
           Grp 1 (Plus (NoneOf (one dquote))), Chr dquote]"

definition idrefPattern2 :: regex where
  "idrefPattern2 =
     seqs [lit ''sap:WorkflowViewState.IdRef='', Chr dquote,
           Grp 1 (Plus (NoneOf (one dquote))), Chr dquote]"

definition idrefs :: "string \<Rightarrow> string psval" where
  "idrefs Content =
     ps_add (collect (map (group_value 1) (Matches Content idrefPattern)))
            (collect (map (group_value 1) (Matches Content idrefPattern2)))"

fun duplicates :: "bool hashtable \<Rightarrow> string list \<Rightarrow> string list" where
  "duplicates seen [] = []"
| "duplicates seen (idref # rest) =
     (if ContainsKey seen idref then idref # duplicates (ht_set seen idref True) rest
      else duplicates (ht_set seen idref True) rest)"

definition Test_HR5_IdRefUniqueness :: "string \<Rightarrow> ValidationResult \<Rightarrow> ValidationResult" where
  "Test_HR5_IdRefUniqueness Content Result =
     (if Count (idrefs Content) = 0 then set_compliance ''HR-5'' NA Result
      else
        let dups = duplicates [] (items (idrefs Content)) in
        if length dups > 0
        then
          let uniqueDupes = collect (Select_Object_Unique dups);
              displayDupes =
                (if Count uniqueDupes > 5 then join '', '' (take 5 (items uniqueDupes)) @ ''...''
                 else join '', '' (items uniqueDupes))
          in set_compliance ''HR-5'' FAIL
               (add_issue (new_issue ''HR-5'' ERROR (''Duplicate IdRefs found: '' @ displayDupes))
                  Result)
        else set_compliance ''HR-5'' PASS Result)"

text \<open>
  \<^verbatim>\<open>$Script:SecretsPatterns\<close>, in the script's order. The pieces the patterns share:
  \<^verbatim>\<open>\s*=\s*"\<close>, the look-aheads \<^verbatim>\<open>(?!\{x:Null\}|\[|False|True)\<close> and \<^verbatim>\<open>(?!\{x:Null\}|\[)\<close>,
  the look-behind \<^verbatim>\<open>(?<![a-zA-Z])\<close>, and \<^verbatim>\<open>[a-zA-Z0-9]\<close>.
\<close>

definition alnum :: cclass where
  "alnum = [(CHR ''a'', CHR ''z''), (CHR ''A'', CHR ''Z''), (CHR ''0'', CHR ''9'')]"

definition equals_quote :: "regex list" where
  "equals_quote = [Star (OneOf space), Chr (CHR ''=''), Star (OneOf space), Chr dquote]"

definition not_null_expr_bool :: regex where
  "not_null_expr_bool = NotAhead (alts [lit ''{x:Null}'', lit ''['', lit ''False'', lit ''True''])"

definition not_null_expr :: regex where
  "not_null_expr = NotAhead (alts [lit ''{x:Null}'', lit ''[''])"

definition not_after_letter :: regex where
  "not_after_letter = NotBehind letter"

definition SecretsPatterns :: "(regex \<times> string) list" where
  \<open>SecretsPatterns =
    [\<comment> \<open>\<^verbatim>\<open>(?<![a-zA-Z])password\s*=\s*"(?!\{x:Null\}|\[|False|True)[^"]+[a-zA-Z0-9]+"\<close>\<close>
     (seqs ([not_after_letter, lit ''password''] @ equals_quote @
            [not_null_expr_bool, Plus (NoneOf (one dquote)), Plus (OneOf alnum), Chr dquote]),
      ''Hardcoded password''),
     \<comment> \<open>\<^verbatim>\<open>(?<![a-zA-Z])Password\s*=\s*"(?!\{x:Null\}|\[|False|True)[^"]+"\<close>\<close>
     (seqs ([not_after_letter, lit ''Password''] @ equals_quote @
            [not_null_expr_bool, Plus (NoneOf (one dquote)), Chr dquote]),
      ''Hardcoded Password property''),
     \<comment> \<open>\<^verbatim>\<open>(?<![a-zA-Z])apikey\s*=\s*"(?!\{x:Null\}|\[)[^"]+"\<close>\<close>
     (seqs ([not_after_letter, lit ''apikey''] @ equals_quote @
            [not_null_expr, Plus (NoneOf (one dquote)), Chr dquote]),
      ''Hardcoded API key''),
     \<comment> \<open>\<^verbatim>\<open>(?<![a-zA-Z])ApiKey\s*=\s*"(?!\{x:Null\}|\[)[^"]+"\<close>\<close>
     (seqs ([not_after_letter, lit ''ApiKey''] @ equals_quote @
            [not_null_expr, Plus (NoneOf (one dquote)), Chr dquote]),
      ''Hardcoded ApiKey property''),
     \<comment> \<open>\<^verbatim>\<open>(?<![a-zA-Z])api_key\s*=\s*"(?!\{x:Null\}|\[)[^"]+"\<close>\<close>
     (seqs ([not_after_letter, lit ''api_key''] @ equals_quote @
            [not_null_expr, Plus (NoneOf (one dquote)), Chr dquote]),
      ''Hardcoded api_key''),
     \<comment> \<open>\<^verbatim>\<open>(?<![a-zA-Z])secret\s*=\s*"(?!\{x:Null\}|\[)[^"]+"\<close>\<close>
     (seqs ([not_after_letter, lit ''secret''] @ equals_quote @
            [not_null_expr, Plus (NoneOf (one dquote)), Chr dquote]),
      ''Hardcoded secret''),
     \<comment> \<open>\<^verbatim>\<open>(?<![a-zA-Z])Secret\s*=\s*"(?!\{x:Null\}|\[)[^"]+"\<close>\<close>
     (seqs ([not_after_letter, lit ''Secret''] @ equals_quote @
            [not_null_expr, Plus (NoneOf (one dquote)), Chr dquote]),
      ''Hardcoded Secret property''),
     \<comment> \<open>\<^verbatim>\<open>(?<![a-zA-Z])token\s*=\s*"(?!\{x:Null\}|\[)[^"]{20,}"\<close>\<close>
     (seqs ([not_after_letter, lit ''token''] @ equals_quote @
            [not_null_expr, AtLeast 20 (NoneOf (one dquote)), Chr dquote]),
      ''Hardcoded token (long string)''),
     \<comment> \<open>\<^verbatim>\<open>(?<![a-zA-Z])Token\s*=\s*"(?!\{x:Null\}|\[)[^"]{20,}"\<close>\<close>
     (seqs ([not_after_letter, lit ''Token''] @ equals_quote @
            [not_null_expr, AtLeast 20 (NoneOf (one dquote)), Chr dquote]),
      ''Hardcoded Token property''),
     \<comment> \<open>\<^verbatim>\<open>bearer\s+[a-zA-Z0-9\-_\.]+\<close>\<close>
     (seqs [lit ''bearer'', Plus (OneOf space),
            Plus (OneOf (alnum @ one (CHR ''-'') @ one (CHR ''_'') @ one (CHR ''.'')))],
      ''Hardcoded Bearer token''),
     \<comment> \<open>\<^verbatim>\<open>Authorization.*Basic\s+[a-zA-Z0-9+/=]+\<close>\<close>
     (seqs [lit ''Authorization'', Star Dot, lit ''Basic'', Plus (OneOf space),
            Plus (OneOf (alnum @ one (CHR ''+'') @ one (CHR ''/'') @ one (CHR ''='')))],
      ''Hardcoded Basic auth''),
     \<comment> \<open>\<^verbatim>\<open>connectionstring\s*=\s*"[^"]*password[^"]*"\<close>\<close>
     (seqs ([lit ''connectionstring''] @ equals_quote @
            [Star (NoneOf (one dquote)), lit ''password'', Star (NoneOf (one dquote)), Chr dquote]),
      ''Connection string with password''),
     \<comment> \<open>\<^verbatim>\<open>ConnectionString\s*=\s*"[^"]*Password[^"]*"\<close>\<close>
     (seqs ([lit ''ConnectionString''] @ equals_quote @
            [Star (NoneOf (one dquote)), lit ''Password'', Star (NoneOf (one dquote)), Chr dquote]),
      ''ConnectionString with Password''),
     \<comment> \<open>\<^verbatim>\<open>CredentialAssetName\s*=\s*""\<close>\<close>
     (seqs ([lit ''CredentialAssetName''] @ equals_quote @ [Chr dquote]),
      ''Empty credential asset name''),
     \<comment> \<open>\<^verbatim>\<open>(?<![a-zA-Z])SecureString\s*=\s*"(?!\{x:Null\}|\[)[^"]+"\<close>\<close>
     (seqs ([not_after_letter, lit ''SecureString''] @ equals_quote @
            [not_null_expr, Plus (NoneOf (one dquote)), Chr dquote]),
      ''Hardcoded SecureString value'')]\<close>

text \<open>\<^verbatim>\<open>Test-SecretsDetection\<close>.\<close>

definition secretsFound :: "string \<Rightarrow> string list" where
  "secretsFound Content = map snd (filter (\<lambda>item. is_match Content (fst item)) SecretsPatterns)"

definition Test_SecretsDetection :: "string \<Rightarrow> ValidationResult \<Rightarrow> ValidationResult" where
  "Test_SecretsDetection Content Result =
     (if length (secretsFound Content) > 0
      then set_compliance ''Secrets'' FAIL
             (add_issue
                (new_issue ''Secrets'' ERROR
                   (''Potential hardcoded secrets detected: ''
                    @ join '', '' (Select_Object_Unique (secretsFound Content))
                    @ ''. Use Orchestrator assets/credentials instead.''))
                Result)
      else set_compliance ''Secrets'' PASS Result)"

section \<open>Per-activity structural completeness\<close>

text \<open>
  \<^verbatim>\<open>Test-ActivitySpecific\<close>. Every activity is found by a pattern of the shape
  \<^verbatim>\<open><Tag[^>]*DisplayName="([^"]*)"\<close>, and examined in the text that starts where the
  match starts and is at most a given number of characters long.
\<close>

definition Get_NearbyContent :: "nat \<Rightarrow> nat \<Rightarrow> string \<Rightarrow> string" where
  "Get_NearbyContent Start Len FullContent =
     (let actualLength = min (int Len) (int (length FullContent) - int Start) in
      if actualLength \<le> 0 then [] else take (nat actualLength) (drop Start FullContent))"

definition activity_pattern :: "regex \<Rightarrow> regex" where
  "activity_pattern tag =
     seqs [tag, Star (NoneOf (one (CHR ''>''))), lit ''DisplayName='', Chr dquote,
           Grp 1 (Star (NoneOf (one dquote))), Chr dquote]"

text \<open>\<^verbatim>\<open>$nearby -notmatch '...'\<close> for a pattern that is literal text.\<close>

definition lacks :: "string \<Rightarrow> string \<Rightarrow> bool" where
  "lacks nearby what = (\<not> is_match nearby (lit what))"

text \<open>The message \<^verbatim>\<open>"Kind 'name' missing what"\<close>, as a list of one.\<close>

definition missing :: "string \<Rightarrow> string \<Rightarrow> string \<Rightarrow> string list" where
  "missing kind name what = [kind @ '' '' @ [squote] @ name @ [squote] @ '' missing '' @ what]"

text \<open>
  One check: for every match of the activity's pattern, in order, what the body of the
  script's loop adds to \<^verbatim>\<open>$activityIssues\<close>, given the nearby text and the display name.
\<close>

definition check ::
  "regex \<Rightarrow> nat \<Rightarrow> (string \<Rightarrow> string \<Rightarrow> string list) \<Rightarrow> string \<Rightarrow> string list" where
  "check tag len body Content =
     concat (map (\<lambda>m. body (Get_NearbyContent (Index m) len Content) (group_value 1 m))
               (Matches Content (activity_pattern tag)))"

definition ui_ForEach_tag :: regex where
  "ui_ForEach_tag = seqs [Chr (CHR ''<''), Opt (lit ''ui:''), lit ''ForEach'']"

text \<open>The checks that come before the one on logging activities, in the script's order.\<close>

definition checks_before_LogMessage :: "(string \<Rightarrow> string list) list" where
  "checks_before_LogMessage =
    [check (lit ''<Assign'') 500 (\<lambda>nearby name.
       (if lacks nearby ''<Assign.To>'' \<and> lacks nearby ''To=''
        then missing ''Assign'' name ''To property'' else []) @
       (if lacks nearby ''<Assign.Value>'' \<and> lacks nearby ''Value=''
        then missing ''Assign'' name ''Value property'' else [])),
     check (lit ''<If'') 1000 (\<lambda>nearby name.
       (if lacks nearby ''Condition='' then missing ''If'' name ''Condition'' else []) @
       (if lacks nearby ''<If.Then>'' then missing ''If'' name ''Then branch'' else [])),
     check (lit ''<Switch'') 500 (\<lambda>nearby name.
       (if lacks nearby ''Expression='' \<and> lacks nearby ''<Switch.Expression>''
        then missing ''Switch'' name ''Expression'' else [])),
     check (lit ''<TryCatch'') 1500 (\<lambda>nearby name.
       (if lacks nearby ''<TryCatch.Try>'' then missing ''TryCatch'' name ''Try block'' else [])),
     check (lit ''<Throw'') 500 (\<lambda>nearby name.
       (if lacks nearby ''Exception='' then missing ''Throw'' name ''Exception'' else [])),
     check ui_ForEach_tag 800 (\<lambda>nearby name.
       (if lacks nearby ''x:TypeArguments='' then missing ''ForEach'' name ''TypeArguments''
        else []) @
       (if \<not> is_match nearby (seqs [ui_ForEach_tag, lit ''.Body>''])
           \<and> lacks nearby ''<ActivityAction''
        then missing ''ForEach'' name ''Body'' else [])),
     check (lit ''<ui:ForEachRow'') 500 (\<lambda>nearby name.
       (if lacks nearby ''DataTable='' then missing ''ForEachRow'' name ''DataTable'' else [])),
     check (lit ''<ui:InvokeWorkflowFile'') 500 (\<lambda>nearby name.
       (if lacks nearby ''WorkflowFileName=''
        then missing ''InvokeWorkflowFile'' name ''WorkflowFileName'' else [])),
     check (lit ''<ui:InvokeCode'') 500 (\<lambda>nearby name.
       (if lacks nearby ''Code='' then missing ''InvokeCode'' name ''Code property'' else []))]"

text \<open>
  The check on logging activities: \<^verbatim>\<open><ui:LogMessage[^>]*DisplayName="([^"]*)"\<close>, 400
  characters, \<^verbatim>\<open>Level=\<close> and \<^verbatim>\<open>Message=\<close>.
\<close>

definition logPattern :: regex where
  "logPattern = activity_pattern (lit ''<ui:LogMessage'')"

definition LogMessage_body :: "string \<Rightarrow> string \<Rightarrow> string list" where
  "LogMessage_body nearby name =
     (if lacks nearby ''Level='' then missing ''LogMessage'' name ''Level'' else []) @
     (if lacks nearby ''Message='' then missing ''LogMessage'' name ''Message'' else [])"

definition LogMessage_check :: "string \<Rightarrow> string list" where
  "LogMessage_check Content = check (lit ''<ui:LogMessage'') 400 LogMessage_body Content"

text \<open>
  The checks that come after it. The first is on the whole text:
  \<^verbatim>\<open><ui:LogMessage\.Message>\s*<InArgument\<close>.
\<close>

definition logMsgElemPattern :: regex where
  "logMsgElemPattern = seqs [lit ''<ui:LogMessage.Message>'', Star (OneOf space), lit ''<InArgument'']"

definition checks_after_LogMessage :: "(string \<Rightarrow> string list) list" where
  "checks_after_LogMessage =
    [\<lambda>Content.
       (if is_match Content logMsgElemPattern
        then [''LogMessage uses element syntax for Message property (causes InArgument type mismatch). Use attribute syntax: Message=''
              @ [dquote] @ ''[expression]'' @ [dquote]]
        else []),
     check (lit ''<ui:MessageBox'') 500 (\<lambda>nearby name.
       (if lacks nearby ''Text='' then missing ''MessageBox'' name ''Text'' else [])),
     check (lit ''<ui:InputDialog'') 600 (\<lambda>nearby name.
       (if lacks nearby ''Label='' then missing ''InputDialog'' name ''Label'' else [])),
     check (lit ''<ui:CreateDirectory'') 300 (\<lambda>nearby name.
       (if lacks nearby ''Path='' then missing ''CreateDirectory'' name ''Path'' else [])),
     check (lit ''<ui:MoveFile'') 400 (\<lambda>nearby name.
       (if lacks nearby ''Path='' then missing ''MoveFile'' name ''Path'' else []) @
       (if lacks nearby ''Destination='' then missing ''MoveFile'' name ''Destination'' else [])),
     check (lit ''<ui:DeleteFileX'') 300 (\<lambda>nearby name.
       (if lacks nearby ''Path='' then missing ''DeleteFileX'' name ''Path'' else [])),
     check (lit ''<ui:FileExistsX'') 300 (\<lambda>nearby name.
       (if lacks nearby ''Path='' then missing ''FileExistsX'' name ''Path'' else [])),
     check (lit ''<ui:KillProcess'') 300 (\<lambda>nearby name.
       (if lacks nearby ''ProcessName='' then missing ''KillProcess'' name ''ProcessName''
        else [])),
     check (lit ''<ui:ReadRange'') 400 (\<lambda>nearby name.
       (if lacks nearby ''WorkbookPath='' then missing ''ReadRange'' name ''WorkbookPath''
        else []) @
       (if lacks nearby ''DataTable='' then missing ''ReadRange'' name ''DataTable output''
        else [])),
     check (lit ''<ui:WriteRange'') 400 (\<lambda>nearby name.
       (if lacks nearby ''WorkbookPath='' then missing ''WriteRange'' name ''WorkbookPath''
        else []) @
       (if lacks nearby ''DataTable='' then missing ''WriteRange'' name ''DataTable input''
        else [])),
     check (lit ''<ueab:ExcelApplicationCard'') 500 (\<lambda>nearby name.
       (if lacks nearby ''WorkbookPath=''
        then missing ''ExcelApplicationCard'' name ''WorkbookPath'' else [])),
     check (lit ''<ueab:ExcelProcessScopeX'') 800 (\<lambda>nearby name.
       (if lacks nearby ''<ueab:ExcelProcessScopeX.Body>''
        then missing ''ExcelProcessScopeX'' name ''Body'' else [])),
     check (lit ''<ueab:ReadRangeX'') 300 (\<lambda>nearby name.
       (if lacks nearby ''SaveTo='' then missing ''ReadRangeX'' name ''SaveTo'' else [])),
     check (lit ''<ui:AddDataColumn'') 400 (\<lambda>nearby name.
       (if lacks nearby ''ColumnName='' then missing ''AddDataColumn'' name ''ColumnName''
        else []) @
       (if lacks nearby ''DataTable='' then missing ''AddDataColumn'' name ''DataTable''
        else [])),
     check (lit ''<FlowDecision'') 500 (\<lambda>nearby name.
       (if lacks nearby ''Condition='' then missing ''FlowDecision'' name ''Condition''
        else []))]"

definition run_checks :: "(string \<Rightarrow> string list) list \<Rightarrow> string \<Rightarrow> string list" where
  "run_checks checks Content = concat (map (\<lambda>c. c Content) checks)"

definition activityIssues :: "string \<Rightarrow> string list" where
  "activityIssues Content =
     run_checks checks_before_LogMessage Content @ LogMessage_check Content
     @ run_checks checks_after_LogMessage Content"

definition Test_ActivitySpecific :: "string \<Rightarrow> ValidationResult \<Rightarrow> ValidationResult" where
  "Test_ActivitySpecific Content Result =
     (if length (activityIssues Content) > 0
      then set_compliance ''ActivitySpecific'' WARN
             (add_issue
                (new_issue ''ActivitySpecific'' WARNING
                   (''Activity structure issues: '' @ display 5 ''; '' (activityIssues Content)))
                Result)
      else set_compliance ''ActivitySpecific'' PASS Result)"

section \<open>The platform and the remaining passes\<close>

text \<open>
  What the script asks of PowerShell and the file system is a record of functions.
  \<open>Get_Content\<close> gives the text of a file, or the message of the exception the
  \<^verbatim>\<open>catch\<close> block receives. \<open>xml_cast\<close> is the cast \<^verbatim>\<open>[xml]$Content\<close>. \<open>string_eq\<close> is the
  comparison of two strings with \<^verbatim>\<open>-eq\<close>, which \<^verbatim>\<open>-contains\<close> applies. \<open>Get_ChildItem\<close> lists
  the full names of the \<^verbatim>\<open>*.xaml\<close> files below a directory. \<open>parent_dirs\<close> lists the
  directories the upward search for \<^verbatim>\<open>project.json\<close> visits, the document's own first
  (\<^verbatim>\<open>Split-Path -Parent\<close> repeated until it returns nothing new). \<open>read_project\<close> is
  \<^verbatim>\<open>Get-Content | ConvertFrom-Json\<close> on a \<^verbatim>\<open>project.json\<close>: the four properties the script
  reads, or \<open>None\<close> when the \<^verbatim>\<open>try\<close> block throws.
\<close>

record project_json =
  expressionLanguage :: string
  studioVersion :: string
  targetFramework :: string
  pj_dependencies :: "(string \<times> string) list option"

record platform =
  Resolve_Path :: "string \<Rightarrow> string option"
  Test_Path :: "string \<Rightarrow> bool"
  Test_Path_Leaf :: "string \<Rightarrow> bool"
  Test_Path_Container :: "string \<Rightarrow> bool"
  Get_Content :: "string \<Rightarrow> string + string"
  Get_ChildItem :: "string \<Rightarrow> string list"
  xml_cast :: "string \<Rightarrow> string option"
  Sort_Object :: "string list \<Rightarrow> string list"
  string_eq :: "string \<Rightarrow> string \<Rightarrow> bool"
  parent_dirs :: "string \<Rightarrow> string list"
  Join_Path :: "string \<Rightarrow> string \<Rightarrow> string"
  read_project :: "string \<Rightarrow> project_json option"

text \<open>\<^verbatim>\<open>Get-ProjectContext\<close>. An empty string stands for a parameter that was not given.\<close>

definition find_project_json :: "platform \<Rightarrow> string \<Rightarrow> string option" where
  "find_project_json P XamlPath =
     (case filter (\<lambda>dir. Test_Path P (Join_Path P dir ''project.json'')) (parent_dirs P XamlPath) of
        [] \<Rightarrow> None
      | dir # _ \<Rightarrow> Some (Join_Path P dir ''project.json''))"

definition unknown_context :: project_context where
  "unknown_context =
     \<lparr>language = ''Unknown'', compatibility = ''Unknown'', dependencies = PSArray [],
      projectPath = None\<rparr>"

definition Get_ProjectContext :: "platform \<Rightarrow> string \<Rightarrow> string \<Rightarrow> project_context" where
  "Get_ProjectContext P XamlPath ProjectJsonPath =
     (case (if ProjectJsonPath \<noteq> [] then Some ProjectJsonPath else find_project_json P XamlPath) of
        None \<Rightarrow> unknown_context
      | Some searchPath \<Rightarrow>
          if searchPath \<noteq> [] \<and> Test_Path P searchPath
          then
            (case read_project P searchPath of
               None \<Rightarrow> unknown_context
             | Some pj \<Rightarrow>
                 \<lparr>language =
                    (if expressionLanguage pj \<noteq> []
                     then (if is_match (expressionLanguage pj) (alts [lit ''CSharp'', lit ''C#''])
                           then ''CSharp'' else ''VB'')
                     else if studioVersion pj \<noteq> [] then ''VB'' else ''Unknown''),
                  compatibility =
                    (if targetFramework pj \<noteq> []
                     then (if is_match (targetFramework pj)
                                (alts [lit ''net6'', lit ''net7'', lit ''net8''])
                           then ''CrossPlatform''
                           else if is_match (targetFramework pj)
                                     (alts [lit ''net461'', lit ''net472'', lit ''net48''])
                           then ''Windows-Legacy'' else ''Windows'')
                     else ''Unknown''),
                  dependencies =
                    (case pj_dependencies pj of None \<Rightarrow> PSArray [] | Some ds \<Rightarrow> collect ds),
                  projectPath = Some searchPath\<rparr>)
          else unknown_context)"

text \<open>
  The validation passes that none of the properties below is about are the fields of a
  record, each taking the arguments the script passes it and the result object, and
  returning the result object as it leaves it. Whatever these passes do to the result,
  the theorems about the pipeline hold. The script is modelled as it runs without
  \<^verbatim>\<open>-NamespaceRegistry\<close> (its caller in this repository passes \<^verbatim>\<open>-Path\<close>, \<^verbatim>\<open>-Strict\<close> and \<^verbatim>\<open>-Json\<close>),
  so \<^verbatim>\<open>$nsRegistry\<close> is \<^verbatim>\<open>$null\<close>.
\<close>

record passes =
  Test_HR0_TemplateStructure :: "string \<Rightarrow> ValidationResult \<Rightarrow> ValidationResult"
  Test_HR2_RootInvariants :: "string \<Rightarrow> string hashtable \<Rightarrow> ValidationResult \<Rightarrow> ValidationResult"
  Test_HR3_PrimaryContainer :: "string \<Rightarrow> ValidationResult \<Rightarrow> ValidationResult"
  Test_HR503_IdRefDualDeclaration :: "string \<Rightarrow> ValidationResult \<Rightarrow> ValidationResult"
  Test_HR6_ExpressionEncoding :: "string \<Rightarrow> ValidationResult \<Rightarrow> ValidationResult"
  Test_DoubleEncoding :: "string \<Rightarrow> ValidationResult \<Rightarrow> ValidationResult"
  Test_HR7_NoUIAutomation :: "string \<Rightarrow> ValidationResult \<Rightarrow> ValidationResult"
  Test_HR9_FlowchartViewState :: "string \<Rightarrow> ValidationResult \<Rightarrow> ValidationResult"
  Test_HR701_InvokeCodeLateBinding :: "string \<Rightarrow> ValidationResult \<Rightarrow> ValidationResult"
  Test_TypeSystem :: "string \<Rightarrow> ValidationResult \<Rightarrow> ValidationResult"
  Test_ExpressionLanguage :: "string \<Rightarrow> string \<Rightarrow> ValidationResult \<Rightarrow> ValidationResult"
  Test_FlowchartStructure :: "string \<Rightarrow> ValidationResult \<Rightarrow> ValidationResult"
  Test_CommonNamespaceRequirements ::
    "string \<Rightarrow> string hashtable \<Rightarrow> ValidationResult \<Rightarrow> ValidationResult"
  Test_NamingConventions :: "string \<Rightarrow> string \<Rightarrow> ValidationResult \<Rightarrow> ValidationResult"
  Test_LoggingPractices :: "string \<Rightarrow> ValidationResult \<Rightarrow> ValidationResult"

section \<open>The pipeline\<close>

text \<open>\<^verbatim>\<open>($issues | Where-Object { $_.Severity -eq ... }).Count\<close>\<close>

definition count_severity :: "severity \<Rightarrow> ValidationIssue list \<Rightarrow> nat" where
  "count_severity sev issues = Count (collect (filter (\<lambda>i. Severity i = sev) issues))"

text \<open>
  \<^verbatim>\<open>Invoke-XamlValidation\<close>. The passes after the well-formedness test are applied to the
  result object one after the other, in the script's order.
\<close>

definition layers :: "platform \<Rightarrow> passes \<Rightarrow> string \<Rightarrow> string \<Rightarrow> project_context
    \<Rightarrow> (ValidationResult \<Rightarrow> ValidationResult) list" where
  "layers P ps path content context =
     (let namespaces = Get_Namespaces content in
      [Test_HR0_TemplateStructure ps content,
       Test_HR2_RootInvariants ps content namespaces,
       Test_NamespacePrefixUsage (Sort_Object P) content namespaces,
       Test_HR3_PrimaryContainer ps content,
       Test_HR4_ArgumentsVariables (string_eq P) content,
       Test_HR5_IdRefUniqueness content,
       Test_HR503_IdRefDualDeclaration ps content,
       Test_HR6_ExpressionEncoding ps content,
       Test_DoubleEncoding ps content,
       Test_HR7_NoUIAutomation ps content,
       Test_HR9_FlowchartViewState ps content,
       Test_HR701_InvokeCodeLateBinding ps content,
       Test_SecretsDetection content,
       Test_TypeSystem ps content,
       Test_ExpressionLanguage ps content (language context),
       Test_FlowchartStructure ps content,
       Test_ActivitySpecific content,
       Test_CommonNamespaceRequirements ps content namespaces,
       Test_NamingConventions ps path content,
       Test_LoggingPractices ps content])"

definition Invoke_XamlValidation ::
  "platform \<Rightarrow> passes \<Rightarrow> string \<Rightarrow> string \<Rightarrow> ValidationResult" where
  "Invoke_XamlValidation P ps path ProjJsonPath =
     (let context = Get_ProjectContext P path ProjJsonPath;
          result = new_result\<lparr>FilePath := path, ProjectContext := Some context\<rparr>
      in
      if \<not> Test_Path P path
      then (add_issue (new_issue ''Layer1-XML'' ERROR (''File not found: '' @ path)) result)
             \<lparr>IsValid := False\<rparr>
      else
        (case Get_Content P path of
           Inl msg \<Rightarrow>
             (add_issue (new_issue ''Layer1-XML'' ERROR (''Error reading file: '' @ msg)) result)
               \<lparr>IsValid := False\<rparr>
         | Inr content \<Rightarrow>
             (case Test_XmlWellFormed (xml_cast P) content result of
                (wellFormed, result1) \<Rightarrow>
                  if \<not> wellFormed then result1\<lparr>IsValid := False\<rparr>
                  else
                    let result2 = foldl (\<lambda>r pass. pass r) result1
                                    (layers P ps path content context);
                        hasErrors = (count_severity ERROR (Issues result2) > 0)
                    in result2\<lparr>IsValid := \<not> hasErrors\<rparr>)))"

section \<open>Reports and the entry point\<close>

text \<open>
  A value as \<^verbatim>\<open>ConvertTo-Json\<close> receives it: \<^verbatim>\<open>$null\<close>, a boolean, a number, a string, an
  array, or a hashtable.
\<close>

datatype pobj =
    PNull
  | PBool bool
  | PInt int
  | PStr string
  | PArr "pobj list"
  | PHash "(string \<times> pobj) list"

text \<open>The value of a pipeline of such objects, where the script stores it as it comes.\<close>

definition pipeline_value :: "pobj list \<Rightarrow> pobj" where
  "pipeline_value xs =
     (case collect xs of PSNull \<Rightarrow> PNull | PSScalar x \<Rightarrow> x | PSArray ys \<Rightarrow> PArr ys)"

definition severity_name :: "severity \<Rightarrow> string" where
  "severity_name s = (case s of ERROR \<Rightarrow> ''ERROR'' | WARNING \<Rightarrow> ''WARNING'' | INFO \<Rightarrow> ''INFO'')"

definition status_name :: "status \<Rightarrow> string" where
  "status_name s =
     (case s of PASS \<Rightarrow> ''PASS'' | FAIL \<Rightarrow> ''FAIL'' | WARN \<Rightarrow> ''WARN'' | NA \<Rightarrow> ''N/A'')"

definition issue_hashtable :: "ValidationIssue \<Rightarrow> pobj" where
  "issue_hashtable i =
     PHash [(''rule'', PStr (Rule i)),
            (''severity'', PStr (severity_name (Severity i))),
            (''message'', PStr (Message i)),
            (''line'', PInt (Line i)),
            (''element'', (case Element i of None \<Rightarrow> PNull | Some e \<Rightarrow> PStr e))]"

definition context_hashtable :: "project_context option \<Rightarrow> pobj" where
  "context_hashtable c =
     (case c of
        None \<Rightarrow> PHash []
      | Some context \<Rightarrow>
          PHash [(''language'', PStr (language context)),
                 (''compatibility'', PStr (compatibility context)),
                 (''dependencies'',
                    (case dependencies context of
                       PSNull \<Rightarrow> PNull
                     | PSScalar d \<Rightarrow> PHash [(''id'', PStr (fst d)), (''version'', PStr (snd d))]
                     | PSArray ds \<Rightarrow>
                         PArr (map (\<lambda>d. PHash [(''id'', PStr (fst d)), (''version'', PStr (snd d))])
                                 ds))),
                 (''projectPath'',
                    (case projectPath context of None \<Rightarrow> PNull | Some p \<Rightarrow> PStr p))])"

text \<open>\<^verbatim>\<open>ValidationResult.ToHashtable\<close>.\<close>

definition ToHashtable :: "ValidationResult \<Rightarrow> pobj" where
  "ToHashtable this =
     PHash [(''file_path'', PStr (FilePath this)),
            (''is_valid'', PBool (IsValid this)),
            (''error_count'', PInt (int (count_severity ERROR (Issues this)))),
            (''warning_count'', PInt (int (count_severity WARNING (Issues this)))),
            (''issues'', pipeline_value (map issue_hashtable (Issues this))),
            (''hr_compliance'',
               PHash (map (\<lambda>(rule, s). (rule, PStr (status_name s))) (HRCompliance this))),
            (''project_context'', context_hashtable (ProjectContext this))]"

text \<open>
  What the script prints: a line written with \<^verbatim>\<open>Write-Host\<close> (colours left out, the
  pieces written with \<^verbatim>\<open>-NoNewline\<close> joined into their line), or an object handed to
  \<^verbatim>\<open>ConvertTo-Json\<close>.
\<close>

datatype printout = Host string | ToJson pobj

definition string_of_int :: "int \<Rightarrow> string" where
  "string_of_int i = (if i < 0 then ''-'' @ string_of_nat (nat (- i)) else string_of_nat (nat i))"

definition issue_line :: "bool \<Rightarrow> ValidationIssue \<Rightarrow> printout" where
  "issue_line with_line issue =
     Host (''  ['' @ Rule issue @ '']''
           @ (if with_line \<and> Line issue \<noteq> 0
              then '' (line '' @ string_of_int (Line issue) @ '')'' else [])
           @ '': '' @ Message issue)"

definition issue_block :: "string \<Rightarrow> bool \<Rightarrow> ValidationIssue list \<Rightarrow> printout list" where
  "issue_block title with_line issues =
     (if Count (collect issues) > 0
      then [Host (title @ '' ('' @ string_of_nat (Count (collect issues)) @ ''):'')]
           @ map (issue_line with_line) issues @ [Host []]
      else [])"

definition compliance_line :: "status hashtable \<Rightarrow> string \<Rightarrow> printout" where
  "compliance_line h rule =
     Host (''  ''
           @ (case ht_get h rule of
                Some PASS \<Rightarrow> ''[PASS]'' | Some FAIL \<Rightarrow> ''[FAIL]'' | Some WARN \<Rightarrow> ''[WARN]''
              | Some NA \<Rightarrow> ''[N/A]'' | None \<Rightarrow> ''[????]'')
           @ '' '' @ rule)"

definition with_severity :: "severity \<Rightarrow> ValidationIssue list \<Rightarrow> ValidationIssue list" where
  "with_severity sev issues = filter (\<lambda>i. Severity i = sev) issues"

text \<open>\<^verbatim>\<open>Write-ValidationReport\<close>.\<close>

definition Write_ValidationReport :: "platform \<Rightarrow> ValidationResult \<Rightarrow> bool \<Rightarrow> printout list" where
  "Write_ValidationReport P Result AsJson =
     (if AsJson then [ToJson (ToHashtable Result)]
      else
        [Host [], Host (replicate 70 (CHR ''='')),
         Host (''XAML Validation Report: '' @ FilePath Result),
         Host (replicate 70 (CHR ''='')),
         Host (''Status: '' @ (if IsValid Result then ''VALID'' else ''INVALID''))]
        @ (case ProjectContext Result of
             None \<Rightarrow> []
           | Some context \<Rightarrow>
               (case projectPath context of
                  None \<Rightarrow> []
                | Some p \<Rightarrow>
                    if p \<noteq> []
                    then [Host [], Host ''Project Context:'',
                          Host (''  Language: '' @ language context),
                          Host (''  Compatibility: '' @ compatibility context)]
                    else []))
        @ [Host [], Host ''Compliance Summary:'', Host (replicate 50 (CHR ''-''))]
        @ map (compliance_line (HRCompliance Result))
            (Sort_Object P (Keys (HRCompliance Result)))
        @ [Host []]
        @ issue_block ''Errors'' True (with_severity ERROR (Issues Result))
        @ issue_block ''Warnings'' True (with_severity WARNING (Issues Result))
        @ issue_block ''Info'' False (with_severity INFO (Issues Result))
        @ [Host (replicate 70 (CHR ''='')),
           Host (''Summary: '' @ string_of_nat (count_severity ERROR (Issues Result))
                 @ '' errors, '' @ string_of_nat (count_severity WARNING (Issues Result))
                 @ '' warnings, '' @ string_of_nat (count_severity INFO (Issues Result))
                 @ '' info''),
           Host []])"

text \<open>
  The entry point. \<open>Path\<close>, \<open>Strict\<close>, \<open>Json\<close> and \<open>ProjectJson\<close> are the script's
  parameters; a run ends with what it printed, its exit code, and the result objects
  it validated (the final value of \<^verbatim>\<open>$result\<close>, or of \<^verbatim>\<open>$results\<close>).
\<close>

record params =
  Path :: string
  Strict :: bool
  Json :: bool
  ProjectJson :: string

record run =
  printed :: "printout list"
  exit_code :: nat
  results :: "ValidationResult list"

text \<open>
  \<^verbatim>\<open>($result.Issues | Where-Object { $_.Severity -in @("ERROR", "WARNING") }).Count -gt 0\<close>
  under \<^verbatim>\<open>-Strict\<close>, and the same with \<^verbatim>\<open>-eq "ERROR"\<close> without.
\<close>

definition hasIssues :: "bool \<Rightarrow> ValidationResult \<Rightarrow> bool" where
  "hasIssues strict result =
     (if strict
      then Count (collect (filter (\<lambda>i. Severity i = ERROR \<or> Severity i = WARNING) (Issues result))) > 0
      else Count (collect (filter (\<lambda>i. Severity i = ERROR) (Issues result))) > 0)"

definition allValid :: "bool \<Rightarrow> ValidationResult list \<Rightarrow> bool" where
  "allValid strict rs =
     (if strict
      then Count (collect (filter (\<lambda>r. Count (collect (filter (\<lambda>i. Severity i = ERROR \<or> Severity i = WARNING) (Issues r))) > 0) rs)) = 0
      else Count (collect (filter (\<lambda>r. \<not> IsValid r) rs)) = 0)"

definition overall_summary :: "ValidationResult list \<Rightarrow> printout list" where
  "overall_summary rs =
     [Host [], Host (replicate 70 (CHR ''='')),
      Host (''OVERALL SUMMARY: '' @ string_of_nat (Count (collect (filter IsValid rs)))
            @ ''/'' @ string_of_nat (Count (collect rs)) @ '' files valid''),
      Host (replicate 70 (CHR ''=''))]"

definition main :: "platform \<Rightarrow> passes \<Rightarrow> params \<Rightarrow> run" where
  "main P ps a =
     (case Resolve_Path P (Path a) of
        None \<Rightarrow>
          \<lparr>printed = [Host (''Error: Path not found: '' @ Path a)], exit_code = 1, results = []\<rparr>
      | Some targetPath \<Rightarrow>
          if Test_Path_Leaf P targetPath
          then
            (let result = Invoke_XamlValidation P ps targetPath (ProjectJson a) in
             \<lparr>printed = Write_ValidationReport P result (Json a),
              exit_code = (if hasIssues (Strict a) result then 1 else 0),
              results = [result]\<rparr>)
          else if Test_Path_Container P targetPath
          then
            (let xamlFiles = Get_ChildItem P targetPath in
             if Count (collect xamlFiles) = 0
             then \<lparr>printed = [Host (''No .xaml files found in '' @ targetPath)], exit_code = 0,
                   results = []\<rparr>
             else
               let rs = map (\<lambda>file. Invoke_XamlValidation P ps file (ProjectJson a)) xamlFiles
               in \<lparr>printed =
                      [Host (''Found '' @ string_of_nat (Count (collect xamlFiles))
                             @ '' XAML files to validate...''),
                       Host []]
                      @ concat (map (\<lambda>result. Write_ValidationReport P result (Json a)) rs)
                      @ (if \<not> Json a then overall_summary rs else []),
                   exit_code = (if allValid (Strict a) rs then 0 else 1),
                   results = rs\<rparr>)
          else
            \<lparr>printed = [Host (''Error: '' @ targetPath @ '' is neither a file nor directory'')],
             exit_code = 1, results = []\<rparr>)"

section \<open>An example platform\<close>

text \<open>
  A platform to run the model on: a table of files with their text, all in the one
  directory \<^verbatim>\<open>/work\<close>, a table of the texts the XML parser rejects with its message,
  sorting by the case-folded text, a string comparison that ignores the case of the
  letters \<^verbatim>\<open>a-z\<close> (the example texts have no others), and no \<^verbatim>\<open>project.json\<close>. With it
  come passes that leave the result as it is.
\<close>

definition example_platform :: "(string \<times> string) list \<Rightarrow> (string \<times> string) list \<Rightarrow> platform" where
  "example_platform files rejected =
     \<lparr>Resolve_Path = (\<lambda>p. if p = ''/work'' \<or> p \<in> set (map fst files) then Some p else None),
      Test_Path = (\<lambda>p. p = ''/work'' \<or> p \<in> set (map fst files)),
      Test_Path_Leaf = (\<lambda>p. p \<in> set (map fst files)),
      Test_Path_Container = (\<lambda>p. p = ''/work''),
      Get_Content = (\<lambda>p. case map_of files p of Some t \<Rightarrow> Inr t | None \<Rightarrow> Inl ''Cannot find path''),
      Get_ChildItem = (\<lambda>d. if d = ''/work'' then map fst files else []),
      xml_cast = map_of rejected,
      Sort_Object = sort_key (map to_lower),
      string_eq = ci_eq,
      parent_dirs = (\<lambda>p. [''/work'', ''/'']),
      Join_Path = (\<lambda>d f. d @ ''/'' @ f),
      read_project = (\<lambda>p. None)\<rparr>"

definition idle_passes :: passes where
  "idle_passes =
     \<lparr>Test_HR0_TemplateStructure = (\<lambda>c r. r),
      Test_HR2_RootInvariants = (\<lambda>c n r. r),
      Test_HR3_PrimaryContainer = (\<lambda>c r. r),
      Test_HR503_IdRefDualDeclaration = (\<lambda>c r. r),
      Test_HR6_ExpressionEncoding = (\<lambda>c r. r),
      Test_DoubleEncoding = (\<lambda>c r. r),
      Test_HR7_NoUIAutomation = (\<lambda>c r. r),
      Test_HR9_FlowchartViewState = (\<lambda>c r. r),
      Test_HR701_InvokeCodeLateBinding = (\<lambda>c r. r),
      Test_TypeSystem = (\<lambda>c r. r),
      Test_ExpressionLanguage = (\<lambda>c l r. r),
      Test_FlowchartStructure = (\<lambda>c r. r),
      Test_CommonNamespaceRequirements = (\<lambda>c n r. r),
      Test_NamingConventions = (\<lambda>f c r. r),
      Test_LoggingPractices = (\<lambda>c r. r)\<rparr>"

definition single_platform_doc :: string where
  \<open>single_platform_doc = ''<Activity xmlns:x="urn:x"><x:Property Name="Foo" /></Activity>''\<close>

definition single_platform :: platform where
  "single_platform = example_platform [(''/work/Main.xaml'', single_platform_doc)] []"

definition doc_malformed :: string where
  "doc_malformed = ''<Activity><Sequence>''"

definition xml_message :: string where
  "xml_message = ''Unexpected end of file has occurred. The following elements are not closed: Sequence, Activity.''"

definition broken_platform :: platform where
  "broken_platform =
     example_platform [(''/work/Broken.xaml'', doc_malformed)] [(doc_malformed, xml_message)]"

definition doc_plain_sequence :: string where
  "doc_plain_sequence = ''<Activity><Sequence /></Activity>''"

definition doc_plain_flowchart :: string where
  "doc_plain_flowchart = ''<Activity><Flowchart /></Activity>''"

definition doc_hardcoded_password :: string where
  \<open>doc_hardcoded_password = ''<Activity><Login Password="Sup3rSecret!" /></Activity>''\<close>

definition batch_platform :: platform where
  "batch_platform =
     example_platform
       [(''/work/A.xaml'', doc_plain_sequence), (''/work/B.xaml'', doc_plain_flowchart),
        (''/work/C.xaml'', doc_hardcoded_password)] []"

definition doc_mixed_idrefs :: string where
  \<open>doc_mixed_idrefs = ''<Sequence xmlns:sap="urn:sap" xmlns:sap2010="urn:sap2010" sap2010:WorkflowViewState.IdRef="abc"><Assign sap:WorkflowViewState.IdRef="abc" /></Sequence>''\<close>

definition doc_same_idrefs :: string where
  \<open>doc_same_idrefs = ''<Sequence xmlns:sap="urn:sap" xmlns:sap2010="urn:sap2010" sap2010:WorkflowViewState.IdRef="abc"><Assign sap2010:WorkflowViewState.IdRef="abc" /><If sap:WorkflowViewState.IdRef="xyz" /></Sequence>''\<close>

definition doc_log_without_level :: string where
  \<open>doc_log_without_level = ''<Sequence><ui:LogMessage DisplayName="Log start" Message="[x]" /></Sequence>''\<close>

definition doc_log_without_name :: string where
  \<open>doc_log_without_name = ''<Sequence><ui:LogMessage Message="[x]" /></Sequence>''\<close>

definition doc_shadow_by_case :: string where
  \<open>doc_shadow_by_case = ''<Activity><x:Property Name="in_Foo" /><Variable Name="in_foo" /></Activity>''\<close>

definition doc_unprefixed_argument :: string where
  \<open>doc_unprefixed_argument = ''<Activity><x:Property Name="Foo" /><Variable Name="bar" /></Activity>''\<close>

definition login_with_prompt :: string where
  \<open>login_with_prompt = ''<Login DisplayName="Enter password" ''\<close>

definition login_with_secure_variable :: string where
  \<open>login_with_secure_variable = ''<Variable x:TypeArguments="ss:SecureString" Name="pw" /><Login ''\<close>

definition doc_IsPassword_secret :: string where
  \<open>doc_IsPassword_secret = ''<Login IsPassword="Sup3rSecret!" />''\<close>

definition log_start_match :: Match where
  \<open>log_start_match =
     \<lparr>Index = 10, Value = ''<ui:LogMessage DisplayName="Log start"'', Groups = [(1, ''Log start'')]\<rparr>\<close>

definition doc_undeclared_prefix :: string where
  "doc_undeclared_prefix = ''<Activity><sd:DataTable /><ui:Comment /></Activity>''"

section \<open>Notions the properties are stated with\<close>

text \<open>A result has an issue of a given severity.\<close>

definition has_severity :: "severity \<Rightarrow> ValidationResult \<Rightarrow> bool" where
  "has_severity sev r = list_ex (\<lambda>i. Severity i = sev) (Issues r)"

text \<open>
  The specification's disqualifying file: one whose result has an ERROR issue, or, under
  the strict switch, an ERROR or a WARNING issue.
\<close>

definition disqualified :: "bool \<Rightarrow> ValidationResult \<Rightarrow> bool" where
  "disqualified strict r =
     (if strict then has_severity ERROR r \<or> has_severity WARNING r else has_severity ERROR r)"

text \<open>A field of a hashtable handed to \<^verbatim>\<open>ConvertTo-Json\<close>.\<close>

definition field :: "string \<Rightarrow> pobj \<Rightarrow> pobj option" where
  "field k v = (case v of PHash kvs \<Rightarrow> map_of kvs k | _ \<Rightarrow> None)"

text \<open>A text starts with another, letter case ignored.\<close>

definition ci_prefix :: "string \<Rightarrow> string \<Rightarrow> bool" where
  "ci_prefix kw s = (length kw \<le> length s \<and> ci_eq (take (length kw) s) kw)"

text \<open>The character before a position of a text.\<close>

definition char_before :: "string \<Rightarrow> nat \<Rightarrow> char option" where
  "char_before s i = (if take i s = [] then None else Some (last (take i s)))"

text \<open>
  A candidate match of a secrets pattern is a match of the pattern with its exclusions
  set aside: \<open>unguarded\<close> takes the look-behind \<^verbatim>\<open>(?<![a-zA-Z])\<close> and the look-aheads
  \<^verbatim>\<open>(?!...)\<close> out of a pattern. So \<^verbatim>\<open>Password="{x:Null}"\<close> is a candidate match, and so is
  the \<^verbatim>\<open>Password="False"\<close> of \<^verbatim>\<open>IsPassword="False"\<close>, while the word \<^verbatim>\<open>password\<close> in a display
  name, or a type \<^verbatim>\<open>SecureString\<close>, is none. \<open>candidate_at s j\<close> says that a candidate
  match of one of the patterns starts at position \<open>j\<close> of \<open>s\<close>, and \<open>only_candidate s i\<close>
  that none starts anywhere but at position \<open>i\<close>.
\<close>

primrec unguarded :: "regex \<Rightarrow> regex" where
  "unguarded (Chr c) = Chr c"
| "unguarded (OneOf cls) = OneOf cls"
| "unguarded (NoneOf cls) = NoneOf cls"
| "unguarded Dot = Dot"
| "unguarded Eps = Eps"
| "unguarded (Seq a b) = Seq (unguarded a) (unguarded b)"
| "unguarded (Alt a b) = Alt (unguarded a) (unguarded b)"
| "unguarded (Star a) = Star (unguarded a)"
| "unguarded (Grp n a) = Grp n (unguarded a)"
| "unguarded (NotAhead a) = Eps"
| "unguarded (NotBehind cls) = Eps"

definition candidate_at :: "string \<Rightarrow> nat \<Rightarrow> bool" where
  "candidate_at s j =
     list_ex (\<lambda>item. rmatch True (unguarded (fst item)) (char_before s j, drop j s, []) \<noteq> [])
       SecretsPatterns"

definition only_candidate :: "string \<Rightarrow> nat \<Rightarrow> bool" where
  "only_candidate s i = list_all (\<lambda>j. j = i \<or> \<not> candidate_at s j) [0..<Suc (length s)]"

text \<open>The matcher state a number of characters further on.\<close>

definition after :: "nat \<Rightarrow> mstate \<Rightarrow> mstate" where
  "after n st =
     (case st of (prev, rest, caps) \<Rightarrow>
        (if n = 0 \<or> rest = [] then prev else Some (last (take n rest)), drop n rest, caps))"

section \<open>Basic facts\<close>

lemma Count_collect: "Count (collect xs) = length xs"
  by (cases xs rule: list.exhaust; cases "tl xs")
     (auto simp: Count_def collect_def split: list.splits)

lemma items_collect: "items (collect xs) = xs"
  by (auto simp: items_def collect_def split: list.splits)

lemma count_severity_length:
  "count_severity sev is = length (filter (\<lambda>i. Severity i = sev) is)"
  by (simp add: count_severity_def Count_collect)

lemma count_severity_zero:
  "count_severity sev is = 0 \<longleftrightarrow> \<not> list_ex (\<lambda>i. Severity i = sev) is"
  by (simp add: count_severity_length list_ex_iff filter_empty_conv)

lemma ci_eq_refl [simp]: "ci_eq a a"
  by (simp add: ci_eq_def)

lemma ci_eq_sym: "ci_eq a b \<Longrightarrow> ci_eq b a"
  by (simp add: ci_eq_def)

lemma ci_eq_trans: "ci_eq a b \<Longrightarrow> ci_eq b c \<Longrightarrow> ci_eq a c"
  by (simp add: ci_eq_def)

lemma ContainsKey_ht_set: "ContainsKey (ht_set h k v) q \<longleftrightarrow> ContainsKey h q \<or> ci_eq k q"
proof (induction h)
  case Nil
  then show ?case by (simp add: ContainsKey_def)
next
  case (Cons e h)
  obtain k' v' where e: "e = (k', v')" by (cases e)
  show ?case
  proof (cases "ci_eq k' k")
    case True
    then have "ci_eq k q \<Longrightarrow> ci_eq k' q" by (rule ci_eq_trans)
    moreover have "ci_eq k' q \<Longrightarrow> ci_eq k q" using True ci_eq_sym ci_eq_trans by blast
    ultimately show ?thesis using True by (auto simp: e ContainsKey_def)
  next
    case False
    with Cons.IH show ?thesis by (auto simp: e ContainsKey_def)
  qed
qed

lemma ht_get_ht_set: "ht_get (ht_set h k v) k = Some v"
  by (induction h) auto

lemma string_of_nat_2: "string_of_nat 2 = ''2''"
  by code_simp

lemma string_of_nat_3: "string_of_nat 3 = ''3''"
  by code_simp

lemma display_single: "display 5 sep [x] = x"
  by (simp add: display_def)

section \<open>Validity, short-circuit and exit codes\<close>

lemma Invoke_IsValid:
  "IsValid (Invoke_XamlValidation P ps path pj)
     \<longleftrightarrow> count_severity ERROR (Issues (Invoke_XamlValidation P ps path pj)) = 0"
  by (auto simp: Invoke_XamlValidation_def Let_def Test_XmlWellFormed_def add_issue_def
      set_compliance_def new_issue_def new_result_def count_severity_length
      split: sum.splits option.splits)

lemma Invoke_IsValid_has:
  "IsValid (Invoke_XamlValidation P ps path pj)
     \<longleftrightarrow> \<not> has_severity ERROR (Invoke_XamlValidation P ps path pj)"
  by (simp add: Invoke_IsValid count_severity_zero has_severity_def)

lemma hasIssues_disqualified: "hasIssues strict r = disqualified strict r"
  by (auto simp: hasIssues_def disqualified_def has_severity_def Count_collect list_ex_iff
      filter_empty_conv)

lemma allValid_disqualified:
  assumes "\<forall>r \<in> set rs. IsValid r \<longleftrightarrow> \<not> has_severity ERROR r"
  shows "allValid strict rs \<longleftrightarrow> \<not> list_ex (disqualified strict) rs"
  using assms
  by (auto simp: allValid_def disqualified_def has_severity_def Count_collect list_ex_iff
      filter_empty_conv)

lemma exit_code_main:
  "exit_code (main P ps a) =
     (case Resolve_Path P (Path a) of
        None \<Rightarrow> 1
      | Some t \<Rightarrow>
          if Test_Path_Leaf P t
          then (if disqualified (Strict a) (Invoke_XamlValidation P ps t (ProjectJson a))
                then 1 else 0)
          else if Test_Path_Container P t
          then (if list_ex (\<lambda>f. disqualified (Strict a)
                               (Invoke_XamlValidation P ps f (ProjectJson a)))
                     (Get_ChildItem P t) then 1 else 0)
          else 1)"
proof -
  have valid: "\<forall>r \<in> set (map (\<lambda>file. Invoke_XamlValidation P ps file (ProjectJson a)) fs).
      IsValid r \<longleftrightarrow> \<not> has_severity ERROR r" for fs
    by (auto simp: Invoke_IsValid_has)
  show ?thesis
    by (auto simp: main_def Let_def hasIssues_disqualified allValid_disqualified [OF valid]
        Count_collect list_ex_iff split: option.splits)
qed

text \<open>The example documents, run through the pipeline.\<close>

lemma eval_single:
  "Invoke_XamlValidation single_platform idle_passes ''/work/Main.xaml'' [] =
     \<lparr>FilePath = ''/work/Main.xaml'', IsValid = True,
      Issues = [new_issue ''HR-4'' WARNING
                  ''Arguments missing standard prefix (in_/out_/io_): Foo''],
      HRCompliance =
        [(''Layer1-XML'', PASS), (''HR-Namespace-Usage'', PASS), (''HR-4'', PASS),
         (''HR-5'', NA), (''Secrets'', PASS), (''ActivitySpecific'', PASS)],
      ProjectContext = Some unknown_context\<rparr>"
  by code_simp

lemma eval_A:
  "Invoke_XamlValidation batch_platform idle_passes ''/work/A.xaml'' [] =
     \<lparr>FilePath = ''/work/A.xaml'', IsValid = True, Issues = [],
      HRCompliance =
        [(''Layer1-XML'', PASS), (''HR-Namespace-Usage'', PASS), (''HR-4'', PASS),
         (''HR-5'', NA), (''Secrets'', PASS), (''ActivitySpecific'', PASS)],
      ProjectContext = Some unknown_context\<rparr>"
  by code_simp

lemma eval_B:
  "Invoke_XamlValidation batch_platform idle_passes ''/work/B.xaml'' [] =
     \<lparr>FilePath = ''/work/B.xaml'', IsValid = True, Issues = [],
      HRCompliance =
        [(''Layer1-XML'', PASS), (''HR-Namespace-Usage'', PASS), (''HR-4'', PASS),
         (''HR-5'', NA), (''Secrets'', PASS), (''ActivitySpecific'', PASS)],
      ProjectContext = Some unknown_context\<rparr>"
  by code_simp

lemma eval_C:
  "Invoke_XamlValidation batch_platform idle_passes ''/work/C.xaml'' [] =
     \<lparr>FilePath = ''/work/C.xaml'', IsValid = False,
      Issues = [new_issue ''Secrets'' ERROR
                  ''Potential hardcoded secrets detected: Hardcoded Password property. Use Orchestrator assets/credentials instead.''],
      HRCompliance =
        [(''Layer1-XML'', PASS), (''HR-Namespace-Usage'', PASS), (''HR-4'', PASS),
         (''HR-5'', NA), (''Secrets'', FAIL), (''ActivitySpecific'', PASS)],
      ProjectContext = Some unknown_context\<rparr>"
  by code_simp

text \<open>
  C1. When the file exists and is read, and the XML parser rejects its text, the
  validation result has exactly one issue, with rule \<^verbatim>\<open>Layer1-XML\<close>, severity ERROR and
  the parser's message; the result is not valid; the compliance map has the single key
  \<^verbatim>\<open>Layer1-XML\<close>, with status FAIL; and no later pass runs: the result is the same
  whatever the other passes are.
\<close>

theorem C1_malformed_document_short_circuits:
  assumes "Test_Path P path" and "Get_Content P path = Inr content"
    and "xml_cast P content = Some msg"
  shows "Issues (Invoke_XamlValidation P ps path pj)
           = [\<lparr>Rule = ''Layer1-XML'', Severity = ERROR,
               Message = ''XML parsing error: '' @ msg, Line = 0, Element = None\<rparr>]
         \<and> \<not> IsValid (Invoke_XamlValidation P ps path pj)
         \<and> HRCompliance (Invoke_XamlValidation P ps path pj) = [(''Layer1-XML'', FAIL)]
         \<and> (\<forall>ps'. Invoke_XamlValidation P ps' path pj = Invoke_XamlValidation P ps path pj)"
  using assms
  by (simp add: Invoke_XamlValidation_def Let_def Test_XmlWellFormed_def add_issue_def
      set_compliance_def new_result_def new_issue_def)

theorem C1_witness:
  "Test_Path broken_platform ''/work/Broken.xaml''
   \<and> Get_Content broken_platform ''/work/Broken.xaml'' = Inr doc_malformed
   \<and> xml_cast broken_platform doc_malformed = Some xml_message
   \<and> Issues (Invoke_XamlValidation broken_platform idle_passes ''/work/Broken.xaml'' [])
        = [\<lparr>Rule = ''Layer1-XML'', Severity = ERROR,
            Message = ''XML parsing error: '' @ xml_message, Line = 0, Element = None\<rparr>]
   \<and> \<not> IsValid (Invoke_XamlValidation broken_platform idle_passes ''/work/Broken.xaml'' [])
   \<and> HRCompliance (Invoke_XamlValidation broken_platform idle_passes ''/work/Broken.xaml'' [])
        = [(''Layer1-XML'', FAIL)]"
proof -
  have h1: "Test_Path broken_platform ''/work/Broken.xaml''"
    by code_simp
  have h2: "Get_Content broken_platform ''/work/Broken.xaml'' = Inr doc_malformed"
    by code_simp
  have h3: "xml_cast broken_platform doc_malformed = Some xml_message"
    by code_simp
  from C1_malformed_document_short_circuits [OF h1 h2 h3, of idle_passes "[]"] h1 h2 h3
  show ?thesis by simp
qed

text \<open>
  C2. The result of a validation is valid exactly when its issue list has no issue of
  severity ERROR (whether or not the document parses); so a result whose issues are
  all WARNING or INFO is valid. The strict switch changes neither the result objects of
  a run nor what the run prints.
\<close>

theorem C2_isValid_reflects_errors_only:
  "(IsValid (Invoke_XamlValidation P ps path pj)
      \<longleftrightarrow> \<not> list_ex (\<lambda>i. Severity i = ERROR) (Issues (Invoke_XamlValidation P ps path pj)))
   \<and> (list_all (\<lambda>i. Severity i = WARNING \<or> Severity i = INFO)
         (Issues (Invoke_XamlValidation P ps path pj))
       \<longrightarrow> IsValid (Invoke_XamlValidation P ps path pj))
   \<and> results (main P ps (a\<lparr>Strict := True\<rparr>)) = results (main P ps (a\<lparr>Strict := False\<rparr>))
   \<and> printed (main P ps (a\<lparr>Strict := True\<rparr>)) = printed (main P ps (a\<lparr>Strict := False\<rparr>))"
proof -
  let ?r = "Invoke_XamlValidation P ps path pj"
  have iff: "IsValid ?r \<longleftrightarrow> \<not> list_ex (\<lambda>i. Severity i = ERROR) (Issues ?r)"
    by (simp add: Invoke_IsValid count_severity_zero)
  have "list_all (\<lambda>i. Severity i = WARNING \<or> Severity i = INFO) (Issues ?r) \<longrightarrow> IsValid ?r"
    unfolding iff by (auto simp: list_all_iff list_ex_iff)
  moreover
  have "results (main P ps (a\<lparr>Strict := True\<rparr>)) = results (main P ps (a\<lparr>Strict := False\<rparr>))"
    by (simp add: main_def Let_def split: option.splits)
  moreover
  have "printed (main P ps (a\<lparr>Strict := True\<rparr>)) = printed (main P ps (a\<lparr>Strict := False\<rparr>))"
    by (simp add: main_def Let_def split: option.splits)
  ultimately show ?thesis using iff by blast
qed

theorem C2_witness:
  "list_all (\<lambda>i. Severity i = WARNING \<or> Severity i = INFO)
     (Issues (Invoke_XamlValidation single_platform idle_passes ''/work/Main.xaml'' []))
   \<and> Issues (Invoke_XamlValidation single_platform idle_passes ''/work/Main.xaml'' []) \<noteq> []
   \<and> IsValid (Invoke_XamlValidation single_platform idle_passes ''/work/Main.xaml'' [])"
proof -
  have h: "list_all (\<lambda>i. Severity i = WARNING \<or> Severity i = INFO)
     (Issues (Invoke_XamlValidation single_platform idle_passes ''/work/Main.xaml'' []))"
    by (simp add: eval_single new_issue_def)
  have n: "Issues (Invoke_XamlValidation single_platform idle_passes ''/work/Main.xaml'' []) \<noteq> []"
    by (simp add: eval_single)
  from C2_isValid_reflects_errors_only
         [of single_platform idle_passes "''/work/Main.xaml''" "[]"] h n
  show ?thesis by blast
qed

text \<open>
  C4. A single-file run on a document whose validation yields no ERROR issue and exactly
  one WARNING issue exits with code 1 under the strict switch and with code 0 without
  it. In general the exit code is 0 or 1, and it is 1 exactly when the path is not
  found, or is a file that is disqualified, or is a directory with a disqualified file
  below it, or is neither a file nor a directory.
\<close>

theorem C4_exit_codes:
  "(Resolve_Path P (Path a) = Some t \<and> Test_Path_Leaf P t
      \<and> length (filter (\<lambda>i. Severity i = ERROR)
            (Issues (Invoke_XamlValidation P ps t (ProjectJson a)))) = 0
      \<and> length (filter (\<lambda>i. Severity i = WARNING)
            (Issues (Invoke_XamlValidation P ps t (ProjectJson a)))) = 1
    \<longrightarrow> exit_code (main P ps (a\<lparr>Strict := True\<rparr>)) = 1
        \<and> exit_code (main P ps (a\<lparr>Strict := False\<rparr>)) = 0)
   \<and> (exit_code (main P ps a) = 0 \<or> exit_code (main P ps a) = 1)
   \<and> (exit_code (main P ps a) = 1 \<longleftrightarrow>
        (case Resolve_Path P (Path a) of
           None \<Rightarrow> True
         | Some p \<Rightarrow>
             if Test_Path_Leaf P p
             then disqualified (Strict a) (Invoke_XamlValidation P ps p (ProjectJson a))
             else if Test_Path_Container P p
             then list_ex (\<lambda>f. disqualified (Strict a)
                                 (Invoke_XamlValidation P ps f (ProjectJson a)))
                    (Get_ChildItem P p)
             else True))"
proof -
  have single: "exit_code (main P ps (a\<lparr>Strict := True\<rparr>)) = 1
        \<and> exit_code (main P ps (a\<lparr>Strict := False\<rparr>)) = 0"
    if "Resolve_Path P (Path a) = Some t" "Test_Path_Leaf P t"
      "length (filter (\<lambda>i. Severity i = ERROR)
            (Issues (Invoke_XamlValidation P ps t (ProjectJson a)))) = 0"
      "length (filter (\<lambda>i. Severity i = WARNING)
            (Issues (Invoke_XamlValidation P ps t (ProjectJson a)))) = 1"
  proof -
    let ?r = "Invoke_XamlValidation P ps t (ProjectJson a)"
    from that(3) have "\<not> has_severity ERROR ?r"
      by (simp add: has_severity_def list_ex_iff filter_empty_conv)
    moreover from that(4) have "filter (\<lambda>i. Severity i = WARNING) (Issues ?r) \<noteq> []"
      by auto
    then have "has_severity WARNING ?r"
      by (simp add: has_severity_def list_ex_iff filter_empty_conv)
    ultimately show ?thesis using that(1,2)
      by (simp add: exit_code_main disqualified_def)
  qed
  have "exit_code (main P ps a) = 0 \<or> exit_code (main P ps a) = 1"
    by (simp add: exit_code_main split: option.splits)
  moreover have "exit_code (main P ps a) = 1 \<longleftrightarrow>
        (case Resolve_Path P (Path a) of
           None \<Rightarrow> True
         | Some p \<Rightarrow>
             if Test_Path_Leaf P p
             then disqualified (Strict a) (Invoke_XamlValidation P ps p (ProjectJson a))
             else if Test_Path_Container P p
             then list_ex (\<lambda>f. disqualified (Strict a)
                                 (Invoke_XamlValidation P ps f (ProjectJson a)))
                    (Get_ChildItem P p)
             else True)"
    by (simp add: exit_code_main split: option.splits)
  ultimately show ?thesis using single by blast
qed

theorem C4_witness:
  "Resolve_Path single_platform ''/work/Main.xaml'' = Some ''/work/Main.xaml''
   \<and> Test_Path_Leaf single_platform ''/work/Main.xaml''
   \<and> length (filter (\<lambda>i. Severity i = ERROR)
        (Issues (Invoke_XamlValidation single_platform idle_passes ''/work/Main.xaml'' []))) = 0
   \<and> length (filter (\<lambda>i. Severity i = WARNING)
        (Issues (Invoke_XamlValidation single_platform idle_passes ''/work/Main.xaml'' []))) = 1
   \<and> exit_code (main single_platform idle_passes
        \<lparr>Path = ''/work/Main.xaml'', Strict = True, Json = True, ProjectJson = []\<rparr>) = 1
   \<and> exit_code (main single_platform idle_passes
        \<lparr>Path = ''/work/Main.xaml'', Strict = False, Json = True, ProjectJson = []\<rparr>) = 0"
proof -
  let ?a = "\<lparr>Path = ''/work/Main.xaml'', Strict = False, Json = True, ProjectJson = []\<rparr>"
  have h1: "Resolve_Path single_platform (Path ?a) = Some ''/work/Main.xaml''"
    by code_simp
  have h2: "Test_Path_Leaf single_platform ''/work/Main.xaml''"
    by code_simp
  have h3: "length (filter (\<lambda>i. Severity i = ERROR)
        (Issues (Invoke_XamlValidation single_platform idle_passes ''/work/Main.xaml''
           (ProjectJson ?a)))) = 0"
    by (simp add: eval_single new_issue_def)
  have h4: "length (filter (\<lambda>i. Severity i = WARNING)
        (Issues (Invoke_XamlValidation single_platform idle_passes ''/work/Main.xaml''
           (ProjectJson ?a)))) = 1"
    by (simp add: eval_single new_issue_def)
  from C4_exit_codes [of single_platform ?a "''/work/Main.xaml''" idle_passes] h1 h2 h3 h4
  show ?thesis by simp
qed

text \<open>
  C5. A directory run over three documents of which two validate without an ERROR issue
  and one has one prints the line \<^verbatim>\<open>OVERALL SUMMARY: 2/3 files valid\<close> in text mode
  and exits with code 1. More generally a directory run exits with code 1 as soon as one
  file below the directory is disqualified.
\<close>

theorem C5_directory_summary_and_exit_code:
  "(Resolve_Path P (Path a) = Some t \<and> \<not> Test_Path_Leaf P t \<and> Test_Path_Container P t
      \<and> \<not> Json a
      \<and> length (Get_ChildItem P t) = 3
      \<and> length (filter (\<lambda>f. \<not> has_severity ERROR (Invoke_XamlValidation P ps f (ProjectJson a)))
            (Get_ChildItem P t)) = 2
    \<longrightarrow> Host ''OVERALL SUMMARY: 2/3 files valid'' \<in> set (printed (main P ps a))
        \<and> exit_code (main P ps a) = 1)
   \<and> (Resolve_Path P (Path a) = Some t \<and> \<not> Test_Path_Leaf P t \<and> Test_Path_Container P t
      \<and> f \<in> set (Get_ChildItem P t)
      \<and> disqualified (Strict a) (Invoke_XamlValidation P ps f (ProjectJson a))
    \<longrightarrow> exit_code (main P ps a) = 1)"
proof -
  let ?v = "\<lambda>f. Invoke_XamlValidation P ps f (ProjectJson a)"
  let ?fs = "Get_ChildItem P t"
  have batch: "exit_code (main P ps a) = 1"
    if "Resolve_Path P (Path a) = Some t" "\<not> Test_Path_Leaf P t" "Test_Path_Container P t"
      "f \<in> set ?fs" "disqualified (Strict a) (?v f)" for f
    using that by (auto simp: exit_code_main list_ex_iff)
  have three: "Host ''OVERALL SUMMARY: 2/3 files valid'' \<in> set (printed (main P ps a))
        \<and> exit_code (main P ps a) = 1"
    if dir: "Resolve_Path P (Path a) = Some t" "\<not> Test_Path_Leaf P t" "Test_Path_Container P t"
      and plain: "\<not> Json a" and n: "length ?fs = 3"
      and ok: "length (filter (\<lambda>f. \<not> has_severity ERROR (?v f)) ?fs) = 2"
  proof -
    have valid: "filter IsValid (map ?v ?fs)
        = map ?v (filter (\<lambda>f. \<not> has_severity ERROR (?v f)) ?fs)"
      by (simp add: filter_map comp_def Invoke_IsValid_has)
    have summary: "overall_summary (map ?v ?fs) =
        [Host [], Host (replicate 70 (CHR ''='')), Host ''OVERALL SUMMARY: 2/3 files valid'',
         Host (replicate 70 (CHR ''=''))]"
      by (simp add: overall_summary_def Count_collect valid ok n string_of_nat_2 string_of_nat_3
          del: string_of_nat.simps replicate.simps)
    have "printed (main P ps a) =
        [Host (''Found '' @ string_of_nat 3 @ '' XAML files to validate...''), Host []]
        @ concat (map (\<lambda>result. Write_ValidationReport P result False) (map ?v ?fs))
        @ overall_summary (map ?v ?fs)"
    proof -
      from n have "?fs \<noteq> []" by auto
      with dir plain n show ?thesis
        by (simp add: main_def Let_def Count_collect del: string_of_nat.simps)
    qed
    then have line: "Host ''OVERALL SUMMARY: 2/3 files valid'' \<in> set (printed (main P ps a))"
      by (simp add: summary del: string_of_nat.simps replicate.simps)
    from n ok have "filter (\<lambda>f. has_severity ERROR (?v f)) ?fs \<noteq> []"
      using sum_length_filter_compl [of "\<lambda>f. \<not> has_severity ERROR (?v f)" ?fs] by auto
    then obtain f where "f \<in> set ?fs" "has_severity ERROR (?v f)"
      by (auto simp: filter_empty_conv)
    then have "disqualified (Strict a) (?v f)" by (simp add: disqualified_def)
    with batch dir \<open>f \<in> set ?fs\<close> have "exit_code (main P ps a) = 1" by blast
    with line show ?thesis by simp
  qed
  show ?thesis using three batch by blast
qed

theorem C5_witness:
  "Resolve_Path batch_platform ''/work'' = Some ''/work''
   \<and> \<not> Test_Path_Leaf batch_platform ''/work''
   \<and> Test_Path_Container batch_platform ''/work''
   \<and> Get_ChildItem batch_platform ''/work'' = [''/work/A.xaml'', ''/work/B.xaml'', ''/work/C.xaml'']
   \<and> \<not> has_severity ERROR (Invoke_XamlValidation batch_platform idle_passes ''/work/A.xaml'' [])
   \<and> \<not> has_severity ERROR (Invoke_XamlValidation batch_platform idle_passes ''/work/B.xaml'' [])
   \<and> has_severity ERROR (Invoke_XamlValidation batch_platform idle_passes ''/work/C.xaml'' [])
   \<and> Host ''OVERALL SUMMARY: 2/3 files valid''
        \<in> set (printed (main batch_platform idle_passes
                 \<lparr>Path = ''/work'', Strict = False, Json = False, ProjectJson = []\<rparr>))
   \<and> exit_code (main batch_platform idle_passes
        \<lparr>Path = ''/work'', Strict = False, Json = False, ProjectJson = []\<rparr>) = 1"
proof -
  let ?a = "\<lparr>Path = ''/work'', Strict = False, Json = False, ProjectJson = []\<rparr>"
  have h1: "Resolve_Path batch_platform (Path ?a) = Some ''/work''"
    by code_simp
  have h2: "\<not> Test_Path_Leaf batch_platform ''/work''"
    by code_simp
  have h3: "Test_Path_Container batch_platform ''/work''"
    by code_simp
  have h4: "Get_ChildItem batch_platform ''/work''
      = [''/work/A.xaml'', ''/work/B.xaml'', ''/work/C.xaml'']"
    by code_simp
  have hA: "\<not> has_severity ERROR (Invoke_XamlValidation batch_platform idle_passes ''/work/A.xaml'' [])"
    by (simp add: eval_A has_severity_def)
  have hB: "\<not> has_severity ERROR (Invoke_XamlValidation batch_platform idle_passes ''/work/B.xaml'' [])"
    by (simp add: eval_B has_severity_def)
  have hC: "has_severity ERROR (Invoke_XamlValidation batch_platform idle_passes ''/work/C.xaml'' [])"
    by (simp add: eval_C has_severity_def new_issue_def)
  have h5: "length (Get_ChildItem batch_platform ''/work'') = 3"
    by (simp add: h4)
  have h6: "length (filter (\<lambda>f. \<not> has_severity ERROR
               (Invoke_XamlValidation batch_platform idle_passes f (ProjectJson ?a)))
            (Get_ChildItem batch_platform ''/work'')) = 2"
    using hA hB hC by (simp add: h4)
  have h7: "\<not> Json ?a"
    by simp
  from C5_directory_summary_and_exit_code [of batch_platform ?a "''/work''" idle_passes]
    h1 h2 h3 h5 h6 h7
  have "Host ''OVERALL SUMMARY: 2/3 files valid'' \<in> set (printed (main batch_platform idle_passes ?a))
      \<and> exit_code (main batch_platform idle_passes ?a) = 1"
    by blast
  with h1 h2 h3 h4 hA hB hC show ?thesis by simp
qed

section \<open>Namespace usage\<close>

text \<open>
  C6. Declaring one more prefix can only shrink the list of used but undeclared
  prefixes: the list under the enlarged map is a sublist, as a set a subset, of the list
  under the original map; a prefix that leaves the list is the declared one (prefixes
  are hashtable keys, compared without regard to letter case); a rule run that adds no
  issue still adds none; and the rule never adds more issues than before.
\<close>

theorem C6_declaring_a_prefix_is_monotone:
  "set (missingPrefixes Content (ht_set Namespaces prefix uri))
     \<subseteq> set (missingPrefixes Content Namespaces)
   \<and> (\<forall>q. q \<in> set (missingPrefixes Content Namespaces)
          \<and> q \<notin> set (missingPrefixes Content (ht_set Namespaces prefix uri))
          \<longrightarrow> ci_eq prefix q)
   \<and> (Issues (Test_NamespacePrefixUsage srt Content Namespaces Result) = Issues Result
        \<longrightarrow> Issues (Test_NamespacePrefixUsage srt Content (ht_set Namespaces prefix uri) Result)
              = Issues Result)
   \<and> length (Issues (Test_NamespacePrefixUsage srt Content (ht_set Namespaces prefix uri) Result))
        \<le> length (Issues (Test_NamespacePrefixUsage srt Content Namespaces Result))"
proof -
  let ?m = "missingPrefixes Content Namespaces"
  let ?m' = "missingPrefixes Content (ht_set Namespaces prefix uri)"
  have sub: "set ?m' \<subseteq> set ?m"
    by (auto simp: missingPrefixes_def ContainsKey_ht_set)
  have only: "\<forall>q. q \<in> set ?m \<and> q \<notin> set ?m' \<longrightarrow> ci_eq prefix q"
    by (auto simp: missingPrefixes_def ContainsKey_ht_set)
  have empty: "?m = [] \<Longrightarrow> ?m' = []"
    using sub by auto
  have new: "Issues (Test_NamespacePrefixUsage srt Content Namespaces Result) = Issues Result
        \<longrightarrow> Issues (Test_NamespacePrefixUsage srt Content (ht_set Namespaces prefix uri) Result)
              = Issues Result"
    using empty
    by (auto simp: Test_NamespacePrefixUsage_def Let_def add_issue_def set_compliance_def)
  have len: "length (Issues (Test_NamespacePrefixUsage srt Content (ht_set Namespaces prefix uri) Result))
        \<le> length (Issues (Test_NamespacePrefixUsage srt Content Namespaces Result))"
    using empty
    by (auto simp: Test_NamespacePrefixUsage_def Let_def add_issue_def set_compliance_def)
  from sub only new len show ?thesis by blast
qed

theorem C6_witness:
  "missingPrefixes doc_undeclared_prefix [(''ui'', ''urn:ui'')] = [''sd'']
   \<and> set (missingPrefixes doc_undeclared_prefix (ht_set [(''ui'', ''urn:ui'')] ''sd'' ''urn:sd''))
        \<subseteq> {''sd''}
   \<and> length (Issues (Test_NamespacePrefixUsage (sort_key (map to_lower)) doc_undeclared_prefix
                 (ht_set [(''ui'', ''urn:ui'')] ''sd'' ''urn:sd'') new_result))
        \<le> 1"
proof -
  have m: "missingPrefixes doc_undeclared_prefix [(''ui'', ''urn:ui'')] = [''sd'']"
    by code_simp
  have n: "length (Issues (Test_NamespacePrefixUsage (sort_key (map to_lower))
               doc_undeclared_prefix [(''ui'', ''urn:ui'')] new_result)) = 1"
    by (simp add: Test_NamespacePrefixUsage_def Let_def add_issue_def set_compliance_def m
        new_result_def)
  from C6_declaring_a_prefix_is_monotone
         [of doc_undeclared_prefix "[(''ui'', ''urn:ui'')]" "''sd''" "''urn:sd''"
             "sort_key (map to_lower)" new_result] m n
  show ?thesis by simp
qed

section \<open>Arguments and variables\<close>

text \<open>
  C10, amended. When no variable name equals an argument name under the string
  comparison of \<^verbatim>\<open>-contains\<close> (PowerShell's \<^verbatim>\<open>-eq\<close>, which ignores letter case; whatever
  that comparison is), the rule sets the compliance of \<^verbatim>\<open>HR-4\<close> to PASS, and every issue
  it adds is a WARNING of rule \<^verbatim>\<open>HR-4\<close>, added exactly when some argument lacks a
  directional prefix: missing prefixes alone never give FAIL and never add an ERROR
  issue.
\<close>

theorem C10_prefix_violations_leave_HR4_passing:
  assumes "\<forall>var \<in> set (items (variables Content)).
             \<forall>arg \<in> set (items (arguments Content)). \<not> eq arg var"
  shows "ht_get (HRCompliance (Test_HR4_ArgumentsVariables eq Content Result)) ''HR-4''
           = Some PASS
     \<and> (\<exists>new. Issues (Test_HR4_ArgumentsVariables eq Content Result) = Issues Result @ new
            \<and> list_all (\<lambda>i. Rule i = ''HR-4'' \<and> Severity i = WARNING) new
            \<and> (new = [] \<longleftrightarrow> invalidArgs Content = []))"
proof -
  from assms have "shadowed eq Content = []"
    by (auto simp: shadowed_def ps_contains_def list_ex_iff filter_empty_conv)
  then show ?thesis
    by (cases "invalidArgs Content")
       (simp_all add: Test_HR4_ArgumentsVariables_def Let_def set_compliance_def add_issue_def
         ht_get_ht_set new_issue_def)
qed

theorem C10_witness:
  "items (variables doc_unprefixed_argument) = [''bar'']
   \<and> items (arguments doc_unprefixed_argument) = [''Foo'']
   \<and> invalidArgs doc_unprefixed_argument = [''Foo'']
   \<and> \<not> ci_eq ''Foo'' ''bar''
   \<and> ht_get (HRCompliance (Test_HR4_ArgumentsVariables ci_eq doc_unprefixed_argument new_result))
        ''HR-4'' = Some PASS"
proof -
  have v: "items (variables doc_unprefixed_argument) = [''bar'']"
    by code_simp
  have a: "items (arguments doc_unprefixed_argument) = [''Foo'']"
    by code_simp
  have i: "invalidArgs doc_unprefixed_argument = [''Foo'']"
    by code_simp
  have n: "\<not> ci_eq ''Foo'' ''bar''"
    by code_simp
  have "\<forall>var \<in> set (items (variables doc_unprefixed_argument)).
          \<forall>arg \<in> set (items (arguments doc_unprefixed_argument)). \<not> ci_eq arg var"
    using n by (simp add: v a)
  from C10_prefix_violations_leave_HR4_passing [OF this, of new_result] v a i n
  show ?thesis by simp
qed

text \<open>
  The claim as it was written, with equality of names, fails: a variable \<^verbatim>\<open>in_foo\<close>
  beside an argument \<^verbatim>\<open>in_Foo\<close> differs from it as a name, and under a comparison that
  ignores the case of \<^verbatim>\<open>F\<close> the rule reports it as shadowing, with status FAIL and an
  ERROR issue.
\<close>

theorem C10_counterexample:
  "items (variables doc_shadow_by_case) = [''in_foo'']
   \<and> items (arguments doc_shadow_by_case) = [''in_Foo'']
   \<and> ''in_foo'' \<noteq> ''in_Foo''
   \<and> Test_HR4_ArgumentsVariables ci_eq doc_shadow_by_case new_result
      = new_result
          \<lparr>Issues := [\<lparr>Rule = ''HR-4'', Severity = ERROR,
                        Message = ''Variables shadow argument names: in_foo'',
                        Line = 0, Element = None\<rparr>],
           HRCompliance := [(''HR-4'', FAIL)]\<rparr>"
  by code_simp

section \<open>IdRef uniqueness\<close>

text \<open>
  C7. The script collects the IdRefs of the two spellings with \<^verbatim>\<open>$idrefs = ...\<close> and
  \<^verbatim>\<open>$idrefs += ...\<close>. When the first spelling occurs exactly once, the variable holds
  a string and \<^verbatim>\<open>+=\<close> appends text to it: a document with the IdRef \<^verbatim>\<open>abc\<close> once in each
  spelling gives the single IdRef \<^verbatim>\<open>abcabc\<close>, the status PASS and no issue. Two
  IdRefs \<^verbatim>\<open>abc\<close> of the first spelling are reported, and named once.
\<close>

theorem C7_two_spellings_of_one_IdRef_pass:
  "map (group_value 1) (Matches doc_mixed_idrefs idrefPattern) = [''abc'']
   \<and> map (group_value 1) (Matches doc_mixed_idrefs idrefPattern2) = [''abc'']
   \<and> idrefs doc_mixed_idrefs = PSScalar ''abcabc''
   \<and> Test_HR5_IdRefUniqueness doc_mixed_idrefs new_result
      = new_result\<lparr>HRCompliance := [(''HR-5'', PASS)]\<rparr>"
  by code_simp

lemma same_spelling_is_reported:
  "idrefs doc_same_idrefs = PSArray [''abc'', ''abc'', ''xyz'']
   \<and> Test_HR5_IdRefUniqueness doc_same_idrefs new_result
      = new_result
          \<lparr>Issues := [new_issue ''HR-5'' ERROR ''Duplicate IdRefs found: abc''],
           HRCompliance := [(''HR-5'', FAIL)]\<rparr>"
  by code_simp

section \<open>The JSON report\<close>

lemma issues_field:
  "field ''issues'' (ToHashtable r) = Some (pipeline_value (map issue_hashtable (Issues r)))"
  by (simp add: field_def ToHashtable_def)

text \<open>
  C8. The field \<^verbatim>\<open>issues\<close> of the report is what the pipeline
  \<^verbatim>\<open>$this.Issues | ForEach-Object { ... }\<close> leaves: a list only for two issues or more.
  For the malformed document, with its one issue, the field is that issue's object
  itself, and for a document without issues it is null.
\<close>

theorem C8_issues_field_is_not_always_a_list:
  "field ''issues''
     (ToHashtable (Invoke_XamlValidation broken_platform idle_passes ''/work/Broken.xaml'' []))
     = Some (PHash [(''rule'', PStr ''Layer1-XML''), (''severity'', PStr ''ERROR''),
                    (''message'', PStr (''XML parsing error: '' @ xml_message)),
                    (''line'', PInt 0), (''element'', PNull)])
   \<and> printed (main broken_platform idle_passes
        \<lparr>Path = ''/work/Broken.xaml'', Strict = False, Json = True, ProjectJson = []\<rparr>)
     = [ToJson (ToHashtable
          (Invoke_XamlValidation broken_platform idle_passes ''/work/Broken.xaml'' []))]
   \<and> field ''issues''
       (ToHashtable (Invoke_XamlValidation batch_platform idle_passes ''/work/A.xaml'' []))
     = Some PNull"
proof -
  have one: "Issues (Invoke_XamlValidation broken_platform idle_passes ''/work/Broken.xaml'' [])
      = [new_issue ''Layer1-XML'' ERROR (''XML parsing error: '' @ xml_message)]"
    by code_simp
  have run: "printed (main broken_platform idle_passes
        \<lparr>Path = ''/work/Broken.xaml'', Strict = False, Json = True, ProjectJson = []\<rparr>)
     = [ToJson (ToHashtable
          (Invoke_XamlValidation broken_platform idle_passes ''/work/Broken.xaml'' []))]"
    by code_simp
  show ?thesis
    by (simp add: issues_field one run eval_A pipeline_value_def collect_def issue_hashtable_def
        new_issue_def severity_name_def)
qed

section \<open>The logging activity\<close>

text \<open>
  C9, amended. The rule looks at a \<^verbatim>\<open>ui:LogMessage\<close> only where its pattern matches,
  that is, where the opening tag carries a \<^verbatim>\<open>DisplayName\<close>. When one such activity has
  a \<^verbatim>\<open>Message\<close> but no \<^verbatim>\<open>Level\<close> among the 400 characters from its start, the other
  matched logging activities are complete, and the other checks of the rule find
  nothing, the rule adds exactly one issue, a WARNING that names the activity by its
  \<^verbatim>\<open>DisplayName\<close> as missing \<^verbatim>\<open>Level\<close>, and sets the compliance of
  \<^verbatim>\<open>ActivitySpecific\<close> to WARN.
\<close>

theorem C9_logging_activity_without_level:
  assumes found: "Matches Content logPattern = earlier @ m # later"
    and others: "list_all (\<lambda>m'. LogMessage_body (Get_NearbyContent (Index m') 400 Content)
                                 (group_value 1 m') = [])
                   (earlier @ later)"
    and no_level: "lacks (Get_NearbyContent (Index m) 400 Content) ''Level=''"
    and has_message: "\<not> lacks (Get_NearbyContent (Index m) 400 Content) ''Message=''"
    and rest_before: "run_checks checks_before_LogMessage Content = []"
    and rest_after: "run_checks checks_after_LogMessage Content = []"
  shows "Issues (Test_ActivitySpecific Content Result)
           = Issues Result
             @ [\<lparr>Rule = ''ActivitySpecific'', Severity = WARNING,
                 Message = ''Activity structure issues: LogMessage '' @ [squote]
                           @ group_value 1 m @ [squote] @ '' missing Level'',
                 Line = 0, Element = None\<rparr>]
         \<and> ht_get (HRCompliance (Test_ActivitySpecific Content Result)) ''ActivitySpecific''
             = Some WARN"
proof -
  let ?body = "\<lambda>m'. LogMessage_body (Get_NearbyContent (Index m') 400 Content) (group_value 1 m')"
  from others have e1: "concat (map ?body earlier) = []" and e2: "concat (map ?body later) = []"
    by (auto simp: list_all_iff)
  from no_level has_message
  have e3: "?body m = [''LogMessage '' @ [squote] @ group_value 1 m @ [squote] @ '' missing Level'']"
    by (simp add: LogMessage_body_def missing_def)
  have "LogMessage_check Content = concat (map ?body (earlier @ m # later))"
    using found by (simp add: LogMessage_check_def check_def logPattern_def)
  also have "\<dots> = concat (map ?body earlier) @ ?body m @ concat (map ?body later)"
    by simp
  also have "\<dots> = [''LogMessage '' @ [squote] @ group_value 1 m @ [squote] @ '' missing Level'']"
    unfolding e1 e2 e3 by simp
  finally have "LogMessage_check Content
      = [''LogMessage '' @ [squote] @ group_value 1 m @ [squote] @ '' missing Level'']" .
  with rest_before rest_after
  have "activityIssues Content
      = [''LogMessage '' @ [squote] @ group_value 1 m @ [squote] @ '' missing Level'']"
    by (simp add: activityIssues_def)
  then show ?thesis
    by (simp add: Test_ActivitySpecific_def display_single add_issue_def set_compliance_def
        ht_get_ht_set new_issue_def)
qed

theorem C9_witness:
  "Matches doc_log_without_level logPattern = [log_start_match]
   \<and> lacks (Get_NearbyContent 10 400 doc_log_without_level) ''Level=''
   \<and> \<not> lacks (Get_NearbyContent 10 400 doc_log_without_level) ''Message=''
   \<and> run_checks checks_before_LogMessage doc_log_without_level = []
   \<and> run_checks checks_after_LogMessage doc_log_without_level = []
   \<and> Issues (Test_ActivitySpecific doc_log_without_level new_result)
        = [\<lparr>Rule = ''ActivitySpecific'', Severity = WARNING,
            Message = ''Activity structure issues: LogMessage '' @ [squote] @ ''Log start''
                      @ [squote] @ '' missing Level'',
            Line = 0, Element = None\<rparr>]
   \<and> ht_get (HRCompliance (Test_ActivitySpecific doc_log_without_level new_result))
        ''ActivitySpecific'' = Some WARN"
proof -
  have h1: "Matches doc_log_without_level logPattern = [] @ log_start_match # []"
    by code_simp
  have h2: "list_all (\<lambda>m'. LogMessage_body (Get_NearbyContent (Index m') 400 doc_log_without_level)
                             (group_value 1 m') = [])
              ([] @ [])"
    by simp
  have i: "Index log_start_match = 10"
    by (simp add: log_start_match_def)
  have g: "group_value 1 log_start_match = ''Log start''"
    by code_simp
  have h3: "lacks (Get_NearbyContent 10 400 doc_log_without_level) ''Level=''"
    by code_simp
  have h4: "\<not> lacks (Get_NearbyContent 10 400 doc_log_without_level) ''Message=''"
    by code_simp
  have h5: "run_checks checks_before_LogMessage doc_log_without_level = []"
    by code_simp
  have h6: "run_checks checks_after_LogMessage doc_log_without_level = []"
    by code_simp
  have h3': "lacks (Get_NearbyContent (Index log_start_match) 400 doc_log_without_level)
      ''Level=''"
    unfolding i by (rule h3)
  have h4': "\<not> lacks (Get_NearbyContent (Index log_start_match) 400 doc_log_without_level)
      ''Message=''"
    unfolding i by (rule h4)
  have "Issues (Test_ActivitySpecific doc_log_without_level new_result)
        = Issues new_result
          @ [\<lparr>Rule = ''ActivitySpecific'', Severity = WARNING,
              Message = ''Activity structure issues: LogMessage '' @ [squote] @ ''Log start''
                        @ [squote] @ '' missing Level'',
              Line = 0, Element = None\<rparr>]
      \<and> ht_get (HRCompliance (Test_ActivitySpecific doc_log_without_level new_result))
          ''ActivitySpecific'' = Some WARN"
    using C9_logging_activity_without_level [OF h1 h2 h3' h4' h5 h6, of new_result]
    unfolding g .
  moreover have "Issues new_result = []"
    by (simp add: new_result_def)
  ultimately show ?thesis using h1 h3 h4 h5 h6 by simp
qed

text \<open>
  The claim as it was written fails for a logging activity that has no
  \<^verbatim>\<open>DisplayName\<close>: the document has a \<^verbatim>\<open>ui:LogMessage\<close> with a \<^verbatim>\<open>Message\<close> and no
  \<^verbatim>\<open>Level\<close>, and no other violation, yet the rule adds no issue and sets PASS.
\<close>

theorem C9_counterexample:
  "is_match doc_log_without_name (lit ''<ui:LogMessage'')
   \<and> \<not> lacks doc_log_without_name ''Message=''
   \<and> lacks doc_log_without_name ''Level=''
   \<and> Matches doc_log_without_name logPattern = []
   \<and> Test_ActivitySpecific doc_log_without_name new_result
      = new_result\<lparr>HRCompliance := [(''ActivitySpecific'', PASS)]\<rparr>"
  by code_simp

section \<open>Secrets detection\<close>

text \<open>
  How the matcher runs through the pieces the secrets patterns are made of: a literal
  text, a character, a look-around, a run of characters of a class.
\<close>

lemma ci_prefix_Nil [simp]: "ci_prefix [] s"
  by (simp add: ci_prefix_def ci_eq_def)

lemma ci_prefix_Cons_Nil [simp]: "\<not> ci_prefix (c # kw) []"
  by (simp add: ci_prefix_def)

lemma ci_prefix_Cons_Cons [simp]:
  "ci_prefix (c # kw) (x # xs) \<longleftrightarrow> to_lower x = to_lower c \<and> ci_prefix kw xs"
  by (auto simp: ci_prefix_def ci_eq_def)

lemma step_Nil [simp]: "step P (p, [], caps) = []"
  by (simp add: step_def)

lemma step_Cons [simp]: "step P (p, x # xs, caps) = (if P x then [(Some x, xs, caps)] else [])"
  by (simp add: step_def)

lemma lit_Nil: "lit [] = Eps"
  by (simp add: lit_def)

lemma lit_Cons: "lit (c # cs) = Seq (Chr c) (lit cs)"
  by (simp add: lit_def)

lemma rmatch_lit:
  "rmatch True (lit kw) (p, s, caps) =
     (if ci_prefix kw s then [after (length kw) (p, s, caps)] else [])"
proof (induction kw arbitrary: p s)
  case Nil
  then show ?case by (simp add: lit_Nil after_def)
next
  case (Cons c kw)
  show ?case
  proof (cases s)
    case Nil
    then show ?thesis by (simp add: lit_Cons)
  next
    case (Cons x xs)
    show ?thesis
    proof (cases "to_lower x = to_lower c")
      case True
      then show ?thesis using Cons.IH [of "Some x" xs]
        by (cases kw; cases xs) (auto simp: \<open>s = x # xs\<close> lit_Cons after_def)
    next
      case False
      then show ?thesis by (simp add: \<open>s = x # xs\<close> lit_Cons)
    qed
  qed
qed

lemma star_stop: "f st = [] \<Longrightarrow> star f n st = [st]"
  by (cases n) simp_all

lemma star_run:
  "list_all P w \<Longrightarrow> length w \<le> n \<Longrightarrow>
   after (length w) (p, w @ rest, caps) \<in> set (star (step P) n (p, w @ rest, caps))"
proof (induction w arbitrary: n p)
  case Nil
  then show ?case by (cases n) (simp_all add: after_def)
next
  case (Cons x w)
  then obtain m where n: "n = Suc m" by (cases n) auto
  from Cons.prems have "list_all P w" "length w \<le> m" "P x" by (auto simp: n)
  from Cons.IH [OF this(1,2), of "Some x"]
  have "after (length w) (Some x, w @ rest, caps)
      \<in> set (star (step P) m (Some x, w @ rest, caps))" .
  moreover have "after (length (x # w)) (p, (x # w) @ rest, caps)
      = after (length w) (Some x, w @ rest, caps)"
    by (cases w) (auto simp: after_def)
  ultimately show ?case using \<open>P x\<close> by (simp add: n remaining_def)
qed

lemma rmatch_NoneOf_step: "rmatch ic (NoneOf cls) = step (\<lambda>x. \<not> in_class ic cls x)"
  by (rule ext) simp

lemma rmatch_Star_NoneOf_run:
  assumes "list_all (\<lambda>x. \<not> in_class ic cls x) w"
  shows "after (length w) (p, w @ rest, caps)
      \<in> set (rmatch ic (Star (NoneOf cls)) (p, w @ rest, caps))"
  using assms by (simp add: rmatch_NoneOf_step star_run remaining_def)

lemma rmatch_Seq_nonempty:
  "st' \<in> set (rmatch ic a st) \<Longrightarrow> rmatch ic b st' \<noteq> [] \<Longrightarrow> rmatch ic (Seq a b) st \<noteq> []"
  by auto

lemma match_fromI:
  "rmatch True r (if a = [] then prev else Some (last a), b, []) \<noteq> []
   \<Longrightarrow> match_from r prev (a @ b)"
proof (induction a arbitrary: prev)
  case Nil
  then show ?case by (cases b) auto
next
  case (Cons x a)
  from Cons.prems have "rmatch True r (if a = [] then Some x else Some (last a), b, []) \<noteq> []"
    by (cases a) auto
  from Cons.IH [OF this] show ?case by simp
qed

lemma match_fromD:
  "match_from r prev s \<Longrightarrow>
   \<exists>a b. s = a @ b \<and> rmatch True r (if a = [] then prev else Some (last a), b, []) \<noteq> []"
proof (induction s arbitrary: prev)
  case Nil
  then show ?case by auto
next
  case (Cons x s)
  show ?case
  proof (cases "rmatch True r (prev, x # s, []) \<noteq> []")
    case True
    then have "x # s = [] @ (x # s)
        \<and> rmatch True r (if [] = [] then prev else Some (last []), x # s, []) \<noteq> []"
      by simp
    then show ?thesis by blast
  next
    case False
    with Cons.prems have "match_from r (Some x) s" by simp
    from Cons.IH [OF this] obtain a b where ab: "s = a @ b"
      "rmatch True r (if a = [] then Some x else Some (last a), b, []) \<noteq> []" by blast
    then have "x # s = (x # a) @ b
        \<and> rmatch True r (if x # a = [] then prev else Some (last (x # a)), b, []) \<noteq> []"
      by (cases a) auto
    then show ?thesis by blast
  qed
qed

lemmas char_eval = to_lower_def to_upper_def upper_lower_def in_class_def in_ranges_def
  letter_def space_def alnum_def one_def dquote_def squote_def

lemma seqs_Nil: "seqs [] = Eps"
  by (simp add: seqs_def)

lemma seqs_Cons: "seqs (r # rs) = Seq r (seqs rs)"
  by (simp add: seqs_def)

lemma Seq_NotBehind:
  "rmatch ic (Seq (NotBehind cl) r) (p, s, caps) =
     (if (case p of None \<Rightarrow> False | Some c \<Rightarrow> in_class ic cl c) then []
      else rmatch ic r (p, s, caps))"
  by (cases p) auto

lemma Seq_lit:
  "rmatch True (Seq (lit kw) r) (p, s, caps) =
     (if ci_prefix kw s then rmatch True r (after (length kw) (p, s, caps)) else [])"
  by (simp add: rmatch_lit)

lemma Seq_Star_OneOf_stop:
  "\<not> in_class ic cls x \<Longrightarrow>
   rmatch ic (Seq (Star (OneOf cls)) r) (p, x # xs, caps) = rmatch ic r (p, x # xs, caps)"
  by (simp add: star_stop)

lemma Seq_Chr:
  "rmatch True (Seq (Chr c) r) (p, x # xs, caps) =
     (if to_lower x = to_lower c then rmatch True r (Some x, xs, caps) else [])"
  by simp

lemma Seq_NotAhead:
  "rmatch ic (Seq (NotAhead a) r) st = (if rmatch ic a st = [] then rmatch ic r st else [])"
  by simp

lemma Alt_empty: "rmatch ic (Alt a b) st = [] \<longleftrightarrow> rmatch ic a st = [] \<and> rmatch ic b st = []"
  by simp

lemma lit_empty: "rmatch True (lit kw) (p, s, caps) = [] \<longleftrightarrow> \<not> ci_prefix kw s"
  by (simp add: rmatch_lit)

lemma Seq_Plus_NoneOf_run:
  assumes "list_all (\<lambda>x. \<not> in_class ic cls x) w" and "w \<noteq> []"
    and "rmatch ic r (after (length w) (p, w @ rest, caps)) \<noteq> []"
  shows "rmatch ic (Seq (Plus (NoneOf cls)) r) (p, w @ rest, caps) \<noteq> []"
proof -
  from assms(2) obtain x w' where w: "w = x # w'" by (cases w) auto
  with assms(1) have x: "\<not> in_class ic cls x"
    and w': "list_all (\<lambda>x. \<not> in_class ic cls x) w'" by auto
  have "after (length w') (Some x, w' @ rest, caps)
      \<in> set (rmatch ic (Star (NoneOf cls)) (Some x, w' @ rest, caps))"
    by (rule rmatch_Star_NoneOf_run [OF w'])
  moreover have "after (length w') (Some x, w' @ rest, caps) = after (length w) (p, w @ rest, caps)"
    by (cases w') (auto simp: w after_def)
  ultimately have "after (length w) (p, w @ rest, caps)
      \<in> set (rmatch ic (Plus (NoneOf cls)) (p, w @ rest, caps))"
    using x by (simp add: Plus_def w del: rmatch.simps(8))
  then show ?thesis using assms(3) by (rule rmatch_Seq_nonempty)
qed

lemmas regex_steps = seqs_Nil seqs_Cons Seq_NotBehind Seq_lit Seq_Chr Seq_NotAhead Alt_empty
  lit_empty Seq_Star_OneOf_stop

lemmas secrets_eval = SecretsPatterns_def equals_quote_def not_after_letter_def
  not_null_expr_bool_def not_null_expr_def alts_def regex_steps after_def dquote_def
  to_lower_def upper_lower_def

lemma space_stop: "\<not> in_class True space (CHR ''='')" "\<not> in_class True space (CHR 0x22)"
  by (simp_all add: char_eval)

lemma Password_pattern_fires_at:
  assumes "case prev of None \<Rightarrow> True | Some p \<Rightarrow> \<not> in_class True letter p"
  shows "rmatch True (fst (SecretsPatterns ! 1))
           (prev, ''Password='' @ CHR 0x22 # ''Sup3rSecret!'' @ CHR 0x22 # post, []) \<noteq> []"
proof -
  have behind: "\<not> (case prev of None \<Rightarrow> False | Some c \<Rightarrow> in_class True letter c)"
    using assms by (cases prev) auto
  have "list_all (\<lambda>x. \<not> in_class True (one dquote) x) ''Sup3rSecret!''"
    by (simp add: char_eval)
  then have tail: "rmatch True (Seq (Plus (NoneOf (one dquote))) (Seq (Chr dquote) Eps))
      (Some (CHR 0x22), ''Sup3rSecret!'' @ CHR 0x22 # post, []) \<noteq> []"
    by (rule Seq_Plus_NoneOf_run) (simp_all add: after_def dquote_def)
  show ?thesis using tail
    by (simp add: SecretsPatterns_def equals_quote_def not_after_letter_def not_null_expr_bool_def
        alts_def regex_steps behind space_stop after_def dquote_def
        to_lower_def upper_lower_def del: rmatch.simps)
qed

lemma star_mono:
  assumes "\<And>st. set (f st) \<subseteq> set (g st)"
  shows "set (star f n st) \<subseteq> set (star g n st)"
proof (induction n arbitrary: st)
  case 0
  show ?case by simp
next
  case (Suc n)
  show ?case
  proof
    fix x
    assume "x \<in> set (star f (Suc n) st)"
    then consider "x = st"
      | st' where "st' \<in> set (f st)" "remaining st' < remaining st" "x \<in> set (star f n st')"
      by (auto split: if_splits)
    then show "x \<in> set (star g (Suc n) st)"
    proof cases
      case 1
      then show ?thesis by simp
    next
      case 2
      from 2(1) assms have "st' \<in> set (g st)" by blast
      moreover from 2(3) Suc.IH have "x \<in> set (star g n st')" by blast
      ultimately show ?thesis using 2(2) by auto
    qed
  qed
qed

lemma unguarded_mono: "set (rmatch ic r st) \<subseteq> set (rmatch ic (unguarded r) st)"
proof (induction r arbitrary: st)
  case (Seq a b)
  show ?case
  proof
    fix x
    assume "x \<in> set (rmatch ic (Seq a b) st)"
    then obtain st' where "st' \<in> set (rmatch ic a st)" "x \<in> set (rmatch ic b st')"
      by auto
    with Seq.IH have "st' \<in> set (rmatch ic (unguarded a) st)"
      "x \<in> set (rmatch ic (unguarded b) st')"
      by blast+
    then show "x \<in> set (rmatch ic (unguarded (Seq a b)) st)"
      by auto
  qed
next
  case (Alt a b)
  have "set (rmatch ic a st) \<subseteq> set (rmatch ic (unguarded a) st)"
    "set (rmatch ic b st) \<subseteq> set (rmatch ic (unguarded b) st)"
    by (rule Alt.IH)+
  then show ?case by auto
next
  case (Star a)
  then show ?case by (simp add: star_mono)
next
  case (Grp n a)
  have "set (rmatch ic a st) \<subseteq> set (rmatch ic (unguarded a) st)"
    by (rule Grp.IH)
  then show ?case by auto
next
  case (NotAhead a)
  show ?case by auto
next
  case (NotBehind cls)
  show ?case by (cases st) (simp split: option.splits)
qed simp_all

lemma candidate_atI:
  assumes "item \<in> set SecretsPatterns"
    and "rmatch True (fst item) (if a = [] then None else Some (last a), b, []) \<noteq> []"
  shows "candidate_at (a @ b) (length a)"
proof -
  from assms(2) obtain st where "st \<in> set (rmatch True (fst item)
      (if a = [] then None else Some (last a), b, []))"
    by (cases "rmatch True (fst item) (if a = [] then None else Some (last a), b, [])") auto
  with unguarded_mono have "st \<in> set (rmatch True (unguarded (fst item))
      (if a = [] then None else Some (last a), b, []))"
    by blast
  then have "rmatch True (unguarded (fst item))
      (char_before (a @ b) (length a), drop (length a) (a @ b), []) \<noteq> []"
    by (auto simp: char_before_def)
  with assms(1) show ?thesis
    by (auto simp: candidate_at_def list_ex_iff)
qed

lemma no_secret_found:
  assumes only: "only_candidate doc i"
    and here: "\<forall>(r, n) \<in> set SecretsPatterns.
                 rmatch True r (char_before doc i, drop i doc, []) = []"
  shows "secretsFound doc = []"
proof -
  have "\<not> is_match doc r" if rn: "(r, n) \<in> set SecretsPatterns" for r n
  proof
    assume "is_match doc r"
    then obtain a b where ab: "doc = a @ b"
      "rmatch True r (if a = [] then None else Some (last a), b, []) \<noteq> []"
      unfolding is_match_def by (blast dest: match_fromD)
    from candidate_atI [OF rn] ab(2) have "candidate_at (a @ b) (length a)"
      by simp
    moreover have "length a < Suc (length doc)"
      by (simp add: ab(1))
    ultimately have "length a = i"
      using only by (auto simp: only_candidate_def list_all_iff ab(1))
    then have "drop i doc = b" "char_before doc i = (if a = [] then None else Some (last a))"
      by (auto simp: ab(1) char_before_def)
    with here rn ab(2) show False by auto
  qed
  then show ?thesis by (auto simp: secretsFound_def filter_empty_conv)
qed

lemma null_value_not_secret:
  assumes "only_candidate (pre @ ''Password='' @ CHR 0x22 # ''{x:Null}'' @ CHR 0x22 # post) (length pre)"
  shows "secretsFound (pre @ ''Password='' @ CHR 0x22 # ''{x:Null}'' @ CHR 0x22 # post) = []"
  using assms by (rule no_secret_found) (simp add: secrets_eval space_stop del: rmatch.simps)

lemma expression_value_not_secret:
  assumes "only_candidate (pre @ ''Password='' @ CHR 0x22 # CHR ''['' # post) (length pre)"
  shows "secretsFound (pre @ ''Password='' @ CHR 0x22 # CHR ''['' # post) = []"
  using assms by (rule no_secret_found) (simp add: secrets_eval space_stop del: rmatch.simps)

lemma IsPassword_not_secret:
  assumes "only_candidate (pre @ ''IsPassword='' @ CHR 0x22 # ''False'' @ CHR 0x22 # post) (length pre + 2)"
  shows "secretsFound (pre @ ''IsPassword='' @ CHR 0x22 # ''False'' @ CHR 0x22 # post) = []"
  using assms by (rule no_secret_found)
     (simp add: secrets_eval space_stop char_before_def in_class_def in_ranges_def letter_def
       del: rmatch.simps)

lemma secret_value_found:
  assumes "pre = [] \<or> \<not> in_class True letter (last pre)"
  shows "secretsFound (pre @ ''Password='' @ CHR 0x22 # ''Sup3rSecret!'' @ CHR 0x22 # post) \<noteq> []"
proof -
  let ?doc = "pre @ ''Password='' @ CHR 0x22 # ''Sup3rSecret!'' @ CHR 0x22 # post"
  let ?item = "SecretsPatterns ! 1"
  have "case (if pre = [] then None else Some (last pre)) of None \<Rightarrow> True
        | Some p \<Rightarrow> \<not> in_class True letter p"
    using assms by auto
  then have "rmatch True (fst ?item)
      (if pre = [] then None else Some (last pre),
       ''Password='' @ CHR 0x22 # ''Sup3rSecret!'' @ CHR 0x22 # post, []) \<noteq> []"
    by (rule Password_pattern_fires_at)
  then have "is_match ?doc (fst ?item)"
    unfolding is_match_def by (rule match_fromI)
  moreover have "?item \<in> set SecretsPatterns"
    by (rule nth_mem) (simp add: SecretsPatterns_def)
  ultimately show ?thesis
    by (auto simp: secretsFound_def filter_empty_conv)
qed

lemma no_secret_PASS:
  assumes "secretsFound Content = []"
  shows "Issues (Test_SecretsDetection Content Result) = Issues Result
     \<and> ht_get (HRCompliance (Test_SecretsDetection Content Result)) ''Secrets'' = Some PASS"
  using assms by (simp add: Test_SecretsDetection_def set_compliance_def ht_get_ht_set)

lemma secret_FAIL:
  assumes "secretsFound Content \<noteq> []"
  shows "\<exists>msg. Issues (Test_SecretsDetection Content Result)
                 = Issues Result
                   @ [\<lparr>Rule = ''Secrets'', Severity = ERROR, Message = msg, Line = 0,
                       Element = None\<rparr>]
     \<and> ht_get (HRCompliance (Test_SecretsDetection Content Result)) ''Secrets'' = Some FAIL"
proof -
  have "Issues (Test_SecretsDetection Content Result)
      = Issues Result
        @ [\<lparr>Rule = ''Secrets'', Severity = ERROR,
            Message = ''Potential hardcoded secrets detected: ''
                      @ join '', '' (Select_Object_Unique (secretsFound Content))
                      @ ''. Use Orchestrator assets/credentials instead.'',
            Line = 0, Element = None\<rparr>]"
    using assms
    by (simp add: Test_SecretsDetection_def set_compliance_def add_issue_def new_issue_def)
  moreover
  have "ht_get (HRCompliance (Test_SecretsDetection Content Result)) ''Secrets'' = Some FAIL"
    using assms by (simp add: Test_SecretsDetection_def set_compliance_def ht_get_ht_set)
  ultimately show ?thesis by blast
qed

text \<open>
  C3, amended. The rule adds no issue and sets PASS for a document whose only candidate
  match is \<^verbatim>\<open>Password="{x:Null}"\<close>, or \<^verbatim>\<open>Password="[\<close> followed by anything (a bracketed
  expression), or the \<^verbatim>\<open>Password="False"\<close> of \<^verbatim>\<open>IsPassword="False"\<close>: no candidate match
  of a secrets pattern starts anywhere else in it. It adds an issue with rule
  \<^verbatim>\<open>Secrets\<close> and severity ERROR, and sets FAIL, for every document in which
  \<^verbatim>\<open>Password="Sup3rSecret!"\<close> stands at the very beginning or right after a character
  that is not a letter \<^verbatim>\<open>a-z\<close>, \<^verbatim>\<open>A-Z\<close> (the look-behind of the pattern).
\<close>

theorem C3_secrets_detection:
  \<open>(only_candidate (pre @ ''Password="{x:Null}"'' @ post) (length pre)
      \<longrightarrow> Issues (Test_SecretsDetection (pre @ ''Password="{x:Null}"'' @ post) Result)
            = Issues Result
          \<and> ht_get (HRCompliance
                     (Test_SecretsDetection (pre @ ''Password="{x:Null}"'' @ post) Result))
              ''Secrets'' = Some PASS)
   \<and> (only_candidate (pre @ ''Password="['' @ post) (length pre)
      \<longrightarrow> Issues (Test_SecretsDetection (pre @ ''Password="['' @ post) Result) = Issues Result
          \<and> ht_get (HRCompliance (Test_SecretsDetection (pre @ ''Password="['' @ post) Result))
              ''Secrets'' = Some PASS)
   \<and> (only_candidate (pre @ ''IsPassword="False"'' @ post) (length pre + 2)
      \<longrightarrow> Issues (Test_SecretsDetection (pre @ ''IsPassword="False"'' @ post) Result)
            = Issues Result
          \<and> ht_get (HRCompliance
                     (Test_SecretsDetection (pre @ ''IsPassword="False"'' @ post) Result))
              ''Secrets'' = Some PASS)
   \<and> (pre = [] \<or> \<not> in_class True letter (last pre)
      \<longrightarrow> (\<exists>msg. Issues (Test_SecretsDetection (pre @ ''Password="Sup3rSecret!"'' @ post) Result)
                    = Issues Result
                      @ [\<lparr>Rule = ''Secrets'', Severity = ERROR, Message = msg, Line = 0,
                          Element = None\<rparr>])
          \<and> ht_get (HRCompliance
                     (Test_SecretsDetection (pre @ ''Password="Sup3rSecret!"'' @ post) Result))
              ''Secrets'' = Some FAIL)\<close>
proof -
  have a: \<open>only_candidate (pre @ ''Password="{x:Null}"'' @ post) (length pre)
      \<longrightarrow> Issues (Test_SecretsDetection (pre @ ''Password="{x:Null}"'' @ post) Result)
            = Issues Result
          \<and> ht_get (HRCompliance
                     (Test_SecretsDetection (pre @ ''Password="{x:Null}"'' @ post) Result))
              ''Secrets'' = Some PASS\<close>
    using null_value_not_secret [of pre post] by (simp add: no_secret_PASS)
  have b: \<open>only_candidate (pre @ ''Password="['' @ post) (length pre)
      \<longrightarrow> Issues (Test_SecretsDetection (pre @ ''Password="['' @ post) Result) = Issues Result
          \<and> ht_get (HRCompliance (Test_SecretsDetection (pre @ ''Password="['' @ post) Result))
              ''Secrets'' = Some PASS\<close>
    using expression_value_not_secret [of pre post] by (simp add: no_secret_PASS)
  have c: \<open>only_candidate (pre @ ''IsPassword="False"'' @ post) (length pre + 2)
      \<longrightarrow> Issues (Test_SecretsDetection (pre @ ''IsPassword="False"'' @ post) Result)
            = Issues Result
          \<and> ht_get (HRCompliance
                     (Test_SecretsDetection (pre @ ''IsPassword="False"'' @ post) Result))
              ''Secrets'' = Some PASS\<close>
    using IsPassword_not_secret [of pre post] by (simp add: no_secret_PASS)
  have d: \<open>pre = [] \<or> \<not> in_class True letter (last pre)
      \<longrightarrow> (\<exists>msg. Issues (Test_SecretsDetection (pre @ ''Password="Sup3rSecret!"'' @ post) Result)
                    = Issues Result
                      @ [\<lparr>Rule = ''Secrets'', Severity = ERROR, Message = msg, Line = 0,
                          Element = None\<rparr>])
          \<and> ht_get (HRCompliance
                     (Test_SecretsDetection (pre @ ''Password="Sup3rSecret!"'' @ post) Result))
              ''Secrets'' = Some FAIL\<close>
    using secret_value_found [of pre post]
      secret_FAIL [of \<open>pre @ ''Password="Sup3rSecret!"'' @ post\<close> Result]
    by simp
  from a b c d show ?thesis by blast
qed

theorem C3_witness:
  \<open>candidate_at (login_with_prompt @ ''Password="{x:Null}"'' @ '' />'')
     (length login_with_prompt)
   \<and> candidate_at (login_with_secure_variable @ ''Password="['' @ ''pw]" />'')
       (length login_with_secure_variable)
   \<and> candidate_at (''<Input '' @ ''IsPassword="False"'' @ '' />'') (length ''<Input '' + 2)
   \<and> only_candidate (login_with_prompt @ ''Password="{x:Null}"'' @ '' />'')
     (length login_with_prompt)
   \<and> Issues (Test_SecretsDetection (login_with_prompt @ ''Password="{x:Null}"'' @ '' />'')
        new_result) = []
   \<and> only_candidate (login_with_secure_variable @ ''Password="['' @ ''pw]" />'')
       (length login_with_secure_variable)
   \<and> Issues (Test_SecretsDetection (login_with_secure_variable @ ''Password="['' @ ''pw]" />'')
        new_result) = []
   \<and> only_candidate (''<Input '' @ ''IsPassword="False"'' @ '' />'') (length ''<Input '' + 2)
   \<and> Issues (Test_SecretsDetection (''<Input '' @ ''IsPassword="False"'' @ '' />'') new_result)
       = []
   \<and> \<not> in_class True letter (last ''<Login '')
   \<and> ht_get (HRCompliance
              (Test_SecretsDetection (''<Login '' @ ''Password="Sup3rSecret!"'' @ '' />'')
                 new_result))
       ''Secrets'' = Some FAIL\<close>
proof -
  have e: "Issues new_result = []"
    by (simp add: new_result_def)
  have o1: \<open>only_candidate (login_with_prompt @ ''Password="{x:Null}"'' @ '' />'')
      (length login_with_prompt)\<close>
    by code_simp
  have o2: \<open>only_candidate (login_with_secure_variable @ ''Password="['' @ ''pw]" />'')
      (length login_with_secure_variable)\<close>
    by code_simp
  have o3: \<open>only_candidate (''<Input '' @ ''IsPassword="False"'' @ '' />'')
      (length ''<Input '' + 2)\<close>
    by code_simp
  have o4: "\<not> in_class True letter (last ''<Login '')"
    by code_simp
  have c1: \<open>candidate_at (login_with_prompt @ ''Password="{x:Null}"'' @ '' />'')
      (length login_with_prompt)\<close>
    by code_simp
  have c2: \<open>candidate_at (login_with_secure_variable @ ''Password="['' @ ''pw]" />'')
      (length login_with_secure_variable)\<close>
    by code_simp
  have c3: \<open>candidate_at (''<Input '' @ ''IsPassword="False"'' @ '' />'')
      (length ''<Input '' + 2)\<close>
    by code_simp
  from C3_secrets_detection [of login_with_prompt "'' />''" new_result] o1
  have r1: \<open>Issues (Test_SecretsDetection (login_with_prompt @ ''Password="{x:Null}"'' @ '' />'')
      new_result) = Issues new_result\<close>
    by blast
  from C3_secrets_detection [of login_with_secure_variable \<open>''pw]" />''\<close> new_result] o2
  have r2: \<open>Issues (Test_SecretsDetection
      (login_with_secure_variable @ ''Password="['' @ ''pw]" />'') new_result)
      = Issues new_result\<close>
    by blast
  from C3_secrets_detection [of "''<Input ''" "'' />''" new_result] o3
  have r3: \<open>Issues (Test_SecretsDetection (''<Input '' @ ''IsPassword="False"'' @ '' />'')
      new_result) = Issues new_result\<close>
    by blast
  from C3_secrets_detection [of "''<Login ''" "'' />''" new_result] o4
  have r4: \<open>ht_get (HRCompliance
      (Test_SecretsDetection (''<Login '' @ ''Password="Sup3rSecret!"'' @ '' />'') new_result))
      ''Secrets'' = Some FAIL\<close>
    by blast
  from c1 c2 c3 o1 r1 o2 r2 o3 r3 o4 r4 show ?thesis
    unfolding e by blast
qed

text \<open>
  The claim as it was written, for every document that contains
  \<^verbatim>\<open>Password="Sup3rSecret!"\<close>, fails where the text follows a letter: the document below
  contains it, inside \<^verbatim>\<open>IsPassword="Sup3rSecret!"\<close>, and the rule adds no issue and sets
  PASS.
\<close>

theorem C3_counterexample:
  \<open>doc_IsPassword_secret = ''<Login Is'' @ ''Password="Sup3rSecret!"'' @ '' />''
   \<and> Test_SecretsDetection doc_IsPassword_secret new_result
      = new_result\<lparr>HRCompliance := [(''Secrets'', PASS)]\<rparr>\<close>
  by code_simp

end
